theory Spec2Isabelle
  imports Main "HOL-Library.Sublist"
begin

section \<open>Data model (src/models.py)\<close>

text \<open>
  Python's \<open>datetime\<close>: the calendar and clock fields the program reads. Values of this
  type are produced by the date library only; the program compares them and reads
  \<open>year\<close> and \<open>month\<close>.
\<close>

record datetime =
  year :: int
  month :: int
  day :: int
  hour :: int
  minute :: int
  second :: int
  microsecond :: int

text \<open>
  The dataclass \<open>TheaterShow\<close>. An \<open>Optional\<close> field is an \<open>option\<close>; the defaults of the
  dataclass are given by \<open>TheaterShow_init\<close> below.
\<close>

record TheaterShow =
  title :: string
  venue :: string
  url :: string
  performance_start_date :: "datetime option"
  performance_end_date :: "datetime option"
  member_sale_date :: "datetime option"
  general_sale_date :: "datetime option"
  price_range :: "string option"
  genre :: "string option"
  description :: "string option"
  theater_id :: string
  last_updated :: datetime

text \<open>\<open>datetime(y, m, d)\<close>.\<close>

definition midnight :: "int \<Rightarrow> int \<Rightarrow> int \<Rightarrow> datetime" where
  "midnight y m d = \<lparr>year = y, month = m, day = d, hour = 0, minute = 0, second = 0, microsecond = 0\<rparr>"

text \<open>
  The constructor \<open>TheaterShow(title=..., venue=..., url=...)\<close> with the defaults of the
  dataclass; \<open>now\<close> is the value \<open>datetime.now()\<close> gives at construction.
\<close>

definition TheaterShow_init :: "string \<Rightarrow> string \<Rightarrow> string \<Rightarrow> datetime \<Rightarrow> TheaterShow" where
  "TheaterShow_init t v u now =
     \<lparr>title = t, venue = v, url = u,
      performance_start_date = None, performance_end_date = None,
      member_sale_date = None, general_sale_date = None,
      price_range = None, genre = None, description = None,
      theater_id = [], last_updated = now\<rparr>"

section \<open>Snapshot comparison (src/data_storage.py, compare_snapshots)\<close>

text \<open>
  A Python \<open>dict\<close> keeps its keys in insertion order; storing under a key that is already
  present replaces the value and leaves the key where it was first inserted. It is
  modelled as an association list with distinct keys: \<open>dict_set\<close> is the store,
  \<open>map_of\<close> the lookup, the list itself is \<open>items()\<close>.
\<close>

type_synonym show_key = "string \<times> string"

type_synonym show_dict = "(show_key \<times> TheaterShow) list"

fun dict_set :: "('k \<times> 'v) list \<Rightarrow> 'k \<Rightarrow> 'v \<Rightarrow> ('k \<times> 'v) list" where
  "dict_set [] k v = [(k, v)]"
| "dict_set ((k', v') # d) k v = (if k' = k then (k', v) # d else (k', v') # dict_set d k v)"

text \<open>The key expression \<open>(show.title, show.venue)\<close> of both comprehensions.\<close>

definition show_key :: "TheaterShow \<Rightarrow> show_key" where
  "show_key s = (title s, venue s)"

text \<open>\<open>{(show.title, show.venue): show for show in shows}\<close>, built left to right.\<close>

definition shows_dict :: "TheaterShow list \<Rightarrow> show_dict" where
  "shows_dict shows = foldl (\<lambda>d s. dict_set d (show_key s) s) [] shows"

text \<open>An entry of \<open>updated_shows\<close>: the dictionary with the keys 'current' and 'previous'.\<close>

record updated_entry =
  current :: TheaterShow
  previous :: TheaterShow

record ChangeReport =
  new_shows :: "TheaterShow list"
  updated_shows :: "updated_entry list"
  unchanged_shows :: "TheaterShow list"
  removed_shows :: "TheaterShow list"

text \<open>The condition of the inner \<open>if\<close>: the four compared fields, joined by \<open>or\<close>.\<close>

definition fields_differ :: "TheaterShow \<Rightarrow> TheaterShow \<Rightarrow> bool" where
  "fields_differ current_show previous_show \<longleftrightarrow>
     performance_start_date current_show \<noteq> performance_start_date previous_show \<or>
     performance_end_date current_show \<noteq> performance_end_date previous_show \<or>
     price_range current_show \<noteq> price_range previous_show \<or>
     description current_show \<noteq> description previous_show"

text \<open>
  The loop \<open>for key, current_show in current_dict.items()\<close>. The state is the three lists
  the loop appends to, in the order (new_shows, updated_shows, unchanged_shows).
\<close>

fun classify_loop ::
  "show_dict \<Rightarrow> show_dict \<Rightarrow>
   TheaterShow list \<times> updated_entry list \<times> TheaterShow list \<Rightarrow>
   TheaterShow list \<times> updated_entry list \<times> TheaterShow list" where
  "classify_loop previous_dict [] acc = acc"
| "classify_loop previous_dict ((key, current_show) # items) (new, updated, unchanged) =
     (case map_of previous_dict key of
        None \<Rightarrow> classify_loop previous_dict items (new @ [current_show], updated, unchanged)
      | Some previous_show \<Rightarrow>
          if fields_differ current_show previous_show
          then classify_loop previous_dict items
                 (new, updated @ [\<lparr>current = current_show, previous = previous_show\<rparr>], unchanged)
          else classify_loop previous_dict items (new, updated, unchanged @ [current_show]))"

definition compare_snapshots :: "TheaterShow list \<Rightarrow> TheaterShow list \<Rightarrow> ChangeReport" where
  "compare_snapshots current_shows previous_shows =
     (let current_dict = shows_dict current_shows;
          previous_dict = shows_dict previous_shows;
          (new, updated, unchanged) = classify_loop previous_dict current_dict ([], [], []);
          removed = [show. (key, show) \<leftarrow> previous_dict, map_of current_dict key = None]
      in \<lparr>new_shows = new, updated_shows = updated,
          unchanged_shows = unchanged, removed_shows = removed\<rparr>)"

section \<open>Strings and the regular expressions of the program\<close>

text \<open>
  A Python string is modelled as a \<open>string\<close> whose characters stand for the code points
  below 256. The only character of the program outside this range is the en dash
  (U+2013) of the date separators; it is represented by the code 0x96, which is neither
  a word character, a digit nor white space, as the en dash is.
\<close>

definition ord :: "char \<Rightarrow> nat" where
  "ord c = of_char c"

definition en_dash :: char where
  "en_dash = CHR 0x96"

text \<open>\<open>str.isspace\<close> and the class \<open>\s\<close>: the white space of Unicode below 256.\<close>

definition isspace :: "char \<Rightarrow> bool" where
  "isspace c \<longleftrightarrow> (9 \<le> ord c \<and> ord c \<le> 13) \<or> (28 \<le> ord c \<and> ord c \<le> 32) \<or> ord c = 133 \<or> ord c = 160"

text \<open>The class \<open>\d\<close>: the decimal digits.\<close>

definition isdigit :: "char \<Rightarrow> bool" where
  "isdigit c \<longleftrightarrow> 48 \<le> ord c \<and> ord c \<le> 57"

text \<open>
  The class \<open>\w\<close>: the alphanumeric characters and the underscore. Below 256 these are
  the ASCII letters and digits, \<open>_\<close>, the feminine and masculine ordinal indicators, the
  micro sign, the superscript digits, the vulgar fractions and the accented letters.
\<close>

definition isword :: "char \<Rightarrow> bool" where
  "isword c \<longleftrightarrow>
     (48 \<le> ord c \<and> ord c \<le> 57) \<or> (65 \<le> ord c \<and> ord c \<le> 90) \<or> ord c = 95 \<or>
     (97 \<le> ord c \<and> ord c \<le> 122) \<or>
     ord c \<in> {170, 178, 179, 181, 185, 186, 188, 189, 190} \<or>
     (192 \<le> ord c \<and> ord c \<le> 214) \<or> (216 \<le> ord c \<and> ord c \<le> 246) \<or> 248 \<le> ord c"

text \<open>\<open>str.lower\<close>, character by character.\<close>

definition lower_char :: "char \<Rightarrow> char" where
  "lower_char c =
     (if (65 \<le> ord c \<and> ord c \<le> 90) \<or> (192 \<le> ord c \<and> ord c \<le> 222 \<and> ord c \<noteq> 215)
      then char_of (ord c + 32) else c)"

definition lower :: "string \<Rightarrow> string" where
  "lower s = map lower_char s"

text \<open>\<open>s.startswith(p)\<close>.\<close>

fun startswith :: "string \<Rightarrow> string \<Rightarrow> bool" where
  "startswith s [] = True"
| "startswith [] (p # ps) = False"
| "startswith (c # cs) (p # ps) = (c = p \<and> startswith cs ps)"

text \<open>\<open>sub in s\<close>: \<open>sub\<close> occurs in \<open>s\<close> as a contiguous substring.\<close>

fun str_contains :: "string \<Rightarrow> string \<Rightarrow> bool" where
  "str_contains sub [] = (sub = [])"
| "str_contains sub (c # cs) = (startswith (c # cs) sub \<or> str_contains sub cs)"

text \<open>\<open>s.strip()\<close>.\<close>

definition strip :: "string \<Rightarrow> string" where
  "strip s = rev (dropWhile isspace (rev (dropWhile isspace s)))"

text \<open>
  \<open>re.sub(r'\s+', ' ', s)\<close>: every maximal run of white space becomes one space. The flag
  says that the previous character was white space.
\<close>

fun collapse_ws :: "bool \<Rightarrow> string \<Rightarrow> string" where
  "collapse_ws in_run [] = []"
| "collapse_ws in_run (c # cs) =
     (if isspace c then (if in_run then collapse_ws True cs else CHR '' '' # collapse_ws True cs)
      else c # collapse_ws False cs)"

definition re_sub_ws :: "string \<Rightarrow> string" where
  "re_sub_ws s = collapse_ws False s"

text \<open>\<open>int(s)\<close> for a string of decimal digits.\<close>

definition int_of_digits :: "string \<Rightarrow> int" where
  "int_of_digits s = foldl (\<lambda>a c. 10 * a + (int (ord c) - 48)) 0 s"

text \<open>
  The end anchor \<open>$\<close>: the end of the string, or the position before a final newline.
\<close>

definition at_end :: "string \<Rightarrow> bool" where
  "at_end s \<longleftrightarrow> s = [] \<or> s = [CHR 0x0A]"

text \<open>\<open>re.match(r'^\d{4}$', s)\<close>.\<close>

definition re_match_year_only :: "string \<Rightarrow> bool" where
  "re_match_year_only s \<longleftrightarrow> length s \<ge> 4 \<and> list_all isdigit (take 4 s) \<and> at_end (drop 4 s)"

text \<open>
  \<open>re.match(r'^\d{1,2}[/.-]\d{1,2}[/.-]\d{2,4}$', s)\<close>. A separator is not a digit and
  the end is not a digit, so each group of digits of a match is a maximal run of digits:
  the match is tried on the runs.
\<close>

definition is_date_sep :: "char \<Rightarrow> bool" where
  "is_date_sep c \<longleftrightarrow> c = CHR ''/'' \<or> c = CHR ''.'' \<or> c = CHR ''-''"

definition re_match_dmy :: "string \<Rightarrow> bool" where
  "re_match_dmy s \<longleftrightarrow>
     (let d1 = takeWhile isdigit s; r1 = dropWhile isdigit s in
      1 \<le> length d1 \<and> length d1 \<le> 2 \<and> r1 \<noteq> [] \<and> is_date_sep (hd r1) \<and>
      (let d2 = takeWhile isdigit (tl r1); r2 = dropWhile isdigit (tl r1) in
       1 \<le> length d2 \<and> length d2 \<le> 2 \<and> r2 \<noteq> [] \<and> is_date_sep (hd r2) \<and>
       (let d3 = takeWhile isdigit (tl r2); r3 = dropWhile isdigit (tl r2) in
        2 \<le> length d3 \<and> length d3 \<le> 4 \<and> at_end r3)))"

text \<open>
  \<open>re.search(r'\b(20\d{2})\b', s)\<close>, returning \<open>int(match.group(1))\<close>. \<open>year_at prev s\<close>
  says that the pattern matches at the start of \<open>s\<close>, where \<open>prev\<close> is the character
  before \<open>s\<close>: a word boundary before the 2, the four characters, a word boundary
  after them. The search takes the leftmost position that matches.
\<close>

definition year_at :: "char option \<Rightarrow> string \<Rightarrow> bool" where
  "year_at prev s \<longleftrightarrow>
     (case prev of None \<Rightarrow> True | Some p \<Rightarrow> \<not> isword p) \<and>
     length s \<ge> 4 \<and> s ! 0 = CHR ''2'' \<and> s ! 1 = CHR ''0'' \<and> isdigit (s ! 2) \<and> isdigit (s ! 3) \<and>
     (length s = 4 \<or> \<not> isword (s ! 4))"

fun re_search_year_from :: "char option \<Rightarrow> string \<Rightarrow> int option" where
  "re_search_year_from prev [] = None"
| "re_search_year_from prev (c # cs) =
     (if year_at prev (c # cs) then Some (int_of_digits (take 4 (c # cs)))
      else re_search_year_from (Some c) cs)"

definition re_search_year :: "string \<Rightarrow> int option" where
  "re_search_year s = re_search_year_from None s"

section \<open>Date text (src/scraper_static.py, parse_date_string)\<close>

text \<open>
  \<open>dateutil.parser.parse\<close> belongs to a library outside the repository. Its two call
  forms, \<open>parse(s, dayfirst=True)\<close> and \<open>parse(s, fuzzy=True)\<close>, are parameters of the
  model. A call returns a \<open>datetime\<close> or raises: \<open>ValueError\<close> stands for the exceptions
  \<open>parse_date_string\<close> catches (ValueError, TypeError), \<open>OtherError\<close> for any other
  exception (the library documents OverflowError).
\<close>

datatype parse_outcome = Parsed datetime | ValueError | OtherError

record date_library =
  parse_dayfirst :: "string \<Rightarrow> parse_outcome"
  parse_fuzzy :: "string \<Rightarrow> parse_outcome"

text \<open>An exception that leaves the function.\<close>

datatype error = Uncaught

definition month_names :: "string list" where
  "month_names =
     [''jan'', ''feb'', ''mar'', ''apr'', ''may'', ''jun'', ''jul'', ''aug'', ''sep'', ''oct'', ''nov'', ''dec'',
      ''january'', ''february'', ''march'', ''april'', ''may'', ''june'', ''july'', ''august'',
      ''september'', ''october'', ''november'', ''december'']"

text \<open>
  The loop \<open>for i, month_name in enumerate(month_names, 1)\<close>, from index \<open>i\<close> on. The
  result is \<open>False\<close> when the loop leaves the function with \<open>return None\<close>, \<open>True\<close> when
  it runs to its end.
\<close>

fun month_loop :: "nat \<Rightarrow> string list \<Rightarrow> string \<Rightarrow> datetime \<Rightarrow> bool" where
  "month_loop i [] clean_string result = True"
| "month_loop i (month_name # rest) clean_string result =
     (if str_contains month_name (lower clean_string) \<and> int i mod 12 \<noteq> month result mod 12
      then False
      else month_loop (Suc i) rest clean_string result)"

text \<open>The second \<open>try\<close> block: the fuzzy parse and the checks of its result.\<close>

definition fuzzy_parse :: "date_library \<Rightarrow> string \<Rightarrow> error + datetime option" where
  "fuzzy_parse lib clean_string =
     (case parse_fuzzy lib clean_string of
        ValueError \<Rightarrow> Inr None
      | OtherError \<Rightarrow> Inl Uncaught
      | Parsed result \<Rightarrow>
          if \<not> month_loop 1 month_names clean_string result then Inr None
          else (case re_search_year clean_string of
                  None \<Rightarrow> Inr (Some result)
                | Some y \<Rightarrow> if y \<noteq> year result then Inr None else Inr (Some result)))"

text \<open>
  \<open>parse_date_string\<close>. The argument is \<open>None\<close> or a string; the result is \<open>Inr None\<close>
  for \<open>return None\<close>, \<open>Inr (Some d)\<close> for a returned date, \<open>Inl Uncaught\<close> when an
  exception of the library leaves the function.
\<close>

definition parse_date_string :: "date_library \<Rightarrow> string option \<Rightarrow> error + datetime option" where
  "parse_date_string lib date_string =
     (case date_string of
        None \<Rightarrow> Inr None
      | Some ds \<Rightarrow>
          if ds = [] then Inr None
          else
            let clean_string = strip (re_sub_ws ds) in
            if length clean_string < 5 then Inr None
            else if re_match_year_only clean_string then Inr None
            else if re_match_dmy clean_string then
              (case parse_dayfirst lib clean_string of
                 Parsed d \<Rightarrow> Inr (Some d)
               | ValueError \<Rightarrow> fuzzy_parse lib clean_string
               | OtherError \<Rightarrow> Inl Uncaught)
            else fuzzy_parse lib clean_string)"



section \<open>Parsed documents\<close>

text \<open>
  The extractors read a document parsed by BeautifulSoup, a library outside the
  repository. The part of its interface the extractors use is modelled on trees. A node
  is an element, with its tag name, its attributes and its children, or a string. The
  library gives every string a type, on which \<open>get_text\<close> depends: \<open>Text\<close> is an ordinary
  string; \<open>Comment\<close> is a comment, declaration or processing instruction; \<open>Contained c s\<close>
  is the string \<open>s\<close> of the type the library keeps for the text inside an element \<open>c\<close> of
  the kinds in \<open>string_containers\<close> (the parser gives this type to the strings below such
  an element). The document itself is an element named \<open>[document]\<close>. The parser gives tag
  names in lower case.
\<close>

datatype node =
  Text string | Comment string | Contained string string |
  Element string "(string \<times> string) list" "node list"

definition string_containers :: "string list" where
  "string_containers = [''rt'', ''rp'', ''style'', ''script'', ''template'']"

text \<open>
  A tag object of the library is a position in the document: the path of child indices
  from the root. \<open>None\<close> of Python is \<open>None\<close>; a tag object is always true.
\<close>

type_synonym path = "nat list"

fun node_at :: "node \<Rightarrow> path \<Rightarrow> node option" where
  "node_at n [] = Some n"
| "node_at (Element t a cs) (i # p) = (if i < length cs then node_at (cs ! i) p else None)"
| "node_at (Text s) (i # p) = None"
| "node_at (Comment s) (i # p) = None"
| "node_at (Contained c s) (i # p) = None"

text \<open>
  The nodes of a subtree in document order, as paths relative to its root; \<open>forest i cs\<close>
  lists the nodes of the children \<open>cs\<close>, the first of which has index \<open>i\<close>.
\<close>

fun subtree :: "node \<Rightarrow> path list" and forest :: "nat \<Rightarrow> node list \<Rightarrow> path list" where
  "subtree (Element t a cs) = [] # forest 0 cs"
| "subtree (Text s) = [[]]"
| "subtree (Comment s) = [[]]"
| "subtree (Contained c s) = [[]]"
| "forest i [] = []"
| "forest i (c # cs) = map ((#) i) (subtree c) @ forest (Suc i) cs"

text \<open>\<open>tag.descendants\<close>: every node below the element at \<open>p\<close>, in document order.\<close>

definition descendants :: "node \<Rightarrow> path \<Rightarrow> path list" where
  "descendants soup p =
     (case node_at soup p of
        Some (Element t a cs) \<Rightarrow> map ((@) p) (forest 0 cs)
      | _ \<Rightarrow> [])"

text \<open>\<open>tag.parent\<close>; the parent of the document is \<open>None\<close>.\<close>

definition parent :: "path \<Rightarrow> path option" where
  "parent p = (if p = [] then None else Some (butlast p))"

text \<open>\<open>tag.name\<close> and \<open>tag.attrs\<close>; a string has neither.\<close>

definition name_at :: "node \<Rightarrow> path \<Rightarrow> string option" where
  "name_at soup p = (case node_at soup p of Some (Element t a cs) \<Rightarrow> Some t | _ \<Rightarrow> None)"

definition attrs_at :: "node \<Rightarrow> path \<Rightarrow> (string \<times> string) list" where
  "attrs_at soup p = (case node_at soup p of Some (Element t a cs) \<Rightarrow> a | _ \<Rightarrow> [])"

text \<open>
  \<open>link_elem['href'] if link_elem and 'href' in link_elem.attrs else ""\<close>, the expression
  every extractor reads a link with.
\<close>

definition href_or_empty :: "node \<Rightarrow> path option \<Rightarrow> string" where
  "href_or_empty soup link_elem =
     (case link_elem of
        None \<Rightarrow> []
      | Some l \<Rightarrow> (case map_of (attrs_at soup l) ''href'' of Some h \<Rightarrow> h | None \<Rightarrow> []))"

text \<open>
  \<open>tag.get_text(strip=True)\<close>: the strings below the element in document order, each
  stripped, joined without a separator (the strings that strip to nothing add nothing).
  Only the strings of the type the element is interested in are taken: inside a string
  container, the strings of its own type; inside any other element, the ordinary
  strings. So the text of a \<open>script\<close> element is the text of that element and is no part
  of the text of the elements around it. \<open>strings_of k n\<close> lists the strings of type \<open>k\<close>
  in \<open>n\<close>, where \<open>None\<close> is the ordinary type. The extractors call the function on
  elements only.
\<close>

fun strings_of :: "string option \<Rightarrow> node \<Rightarrow> string list" where
  "strings_of k (Text s) = (if k = None then [s] else [])"
| "strings_of k (Comment s) = []"
| "strings_of k (Contained c s) = (if k = Some c then [s] else [])"
| "strings_of k (Element t a cs) = concat (map (strings_of k) cs)"

definition get_text :: "node \<Rightarrow> path \<Rightarrow> string" where
  "get_text soup p =
     (case node_at soup p of
        Some (Element t a cs) \<Rightarrow>
          concat (map strip
            (strings_of (if t \<in> set string_containers then Some t else None) (Element t a cs)))
      | _ \<Rightarrow> [])"

text \<open>
  \<open>str.split()\<close> on white space, which gives the classes of a \<open>class\<close> attribute; the
  loop keeps the word being read.
\<close>

fun split_ws :: "string \<Rightarrow> string \<Rightarrow> string list" where
  "split_ws w [] = (if w = [] then [] else [w])"
| "split_ws w (c # cs) =
     (if isspace c then (if w = [] then split_ws [] cs else w # split_ws [] cs)
      else split_ws (w @ [c]) cs)"

definition class_list :: "(string \<times> string) list \<Rightarrow> string list" where
  "class_list a = (case map_of a ''class'' of Some v \<Rightarrow> split_ws [] v | None \<Rightarrow> [])"

text \<open>\<open>' '.join(words)\<close>.\<close>

fun join_spaces :: "string list \<Rightarrow> string" where
  "join_spaces [] = []"
| "join_spaces [w] = w"
| "join_spaces (w # v # ws) = w @ '' '' @ join_spaces (v # ws)"

text \<open>
  The CSS selectors of the program are lists, separated by commas, of compound
  selectors without combinators. A compound selector is a list of simple selectors, all
  of which must hold: a tag name, a class (\<open>.c\<close>), an identifier (\<open>#i\<close>), or a substring
  test on the class attribute (\<open>[class*="v"]\<close>, with the flag \<open>i\<close> when the boolean is
  true), which the library applies to the classes joined by single spaces.
\<close>

datatype simple_selector =
  Tag string | Class string | Id string | ClassContains string bool

type_synonym selector = "simple_selector list list"

fun matches_simple :: "string \<Rightarrow> (string \<times> string) list \<Rightarrow> simple_selector \<Rightarrow> bool" where
  "matches_simple t a (Tag n) = (t = n)"
| "matches_simple t a (Class c) = (c \<in> set (class_list a))"
| "matches_simple t a (Id i) = (map_of a ''id'' = Some i)"
| "matches_simple t a (ClassContains v ci) =
     (case map_of a ''class'' of
        None \<Rightarrow> False
      | Some x \<Rightarrow> if ci then str_contains (lower v) (lower (join_spaces (class_list a)))
                 else str_contains v (join_spaces (class_list a)))"

definition matches :: "selector \<Rightarrow> node \<Rightarrow> bool" where
  "matches sel n =
     (case n of
        Element t a cs \<Rightarrow> list_ex (\<lambda>compound. list_all (matches_simple t a) compound) sel
      | _ \<Rightarrow> False)"

text \<open>
  \<open>tag.select(sel)\<close>: the elements below \<open>p\<close> that match, in document order;
  \<open>tag.select_one(sel)\<close>: the first of them or \<open>None\<close>.
\<close>

definition select :: "node \<Rightarrow> path \<Rightarrow> selector \<Rightarrow> path list" where
  "select soup p sel =
     filter (\<lambda>q. case node_at soup q of Some n \<Rightarrow> matches sel n | None \<Rightarrow> False) (descendants soup p)"

definition select_one :: "node \<Rightarrow> path \<Rightarrow> selector \<Rightarrow> path option" where
  "select_one soup p sel = (case select soup p sel of [] \<Rightarrow> None | q # qs \<Rightarrow> Some q)"

text \<open>
  \<open>tag.find_all(names)\<close> and \<open>tag.find(names)\<close> with a tag name or a list of tag names:
  the elements below \<open>p\<close> with one of the names, and the first of them.
\<close>

definition find_all :: "node \<Rightarrow> path \<Rightarrow> string list \<Rightarrow> path list" where
  "find_all soup p names =
     filter (\<lambda>q. case name_at soup q of Some t \<Rightarrow> t \<in> set names | None \<Rightarrow> False) (descendants soup p)"

definition find :: "node \<Rightarrow> path \<Rightarrow> string list \<Rightarrow> path option" where
  "find soup p names = (case find_all soup p names of [] \<Rightarrow> None | q # qs \<Rightarrow> Some q)"

section \<open>Code shared by the extractors (src/scraper_static.py)\<close>

text \<open>
  The rewriting of a relative link, which the extractors repeat with their own origin:
  \<open>if show_url and not show_url.startswith('http')\<close>, the origin is put in front, with
  a slash when the link does not start with one.
\<close>

definition absolute_url :: "string \<Rightarrow> string \<Rightarrow> string" where
  "absolute_url origin show_url =
     (if show_url \<noteq> [] \<and> \<not> startswith show_url ''http''
      then (if startswith show_url ''/'' then origin @ show_url else origin @ ''/'' @ show_url)
      else show_url)"

text \<open>
  The test of the heading scans: \<open>text and len(text) > 3 and not any(x in text.lower()
  for x in ['menu', 'navigation', 'home', 'about', 'contact'])\<close>.
\<close>

definition plausible_title :: "string \<Rightarrow> bool" where
  "plausible_title text \<longleftrightarrow>
     text \<noteq> [] \<and> length text > 3 \<and>
     \<not> list_ex (\<lambda>x. str_contains x (lower text)) [''menu'', ''navigation'', ''home'', ''about'', ''contact'']"

text \<open>\<open>s.replace(old, new)\<close> for a non-empty \<open>old\<close>; the counter skips the rest of a match.\<close>

fun replace_loop :: "nat \<Rightarrow> string \<Rightarrow> string \<Rightarrow> string \<Rightarrow> string" where
  "replace_loop k old new [] = []"
| "replace_loop (Suc k) old new (c # cs) = replace_loop k old new cs"
| "replace_loop 0 old new (c # cs) =
     (if startswith (c # cs) old then new @ replace_loop (length old - 1) old new cs
      else c # replace_loop 0 old new cs)"

definition str_replace :: "string \<Rightarrow> string \<Rightarrow> string \<Rightarrow> string" where
  "str_replace s old new = replace_loop 0 old new s"

section \<open>Bridge Theatre (extract_bridge_shows)\<close>

text \<open>
  The clock is a parameter: \<open>now\<close> is the reading \<open>datetime.now()\<close> gives when a record is
  constructed, taken to be the same for the records of one call.

  The loop \<open>for _ in range(3)\<close> that looks for a link in the parent of a title element
  and up to two levels above it; the counter is the number of rounds left.
\<close>

fun bridge_find_link :: "nat \<Rightarrow> node \<Rightarrow> path option \<Rightarrow> path option" where
  "bridge_find_link 0 soup parent_elem = None"
| "bridge_find_link (Suc n) soup parent_elem =
     (case parent_elem of
        None \<Rightarrow> bridge_find_link n soup None
      | Some p \<Rightarrow>
          (case find soup p [''a''] of
             Some link_elem \<Rightarrow> Some link_elem
           | None \<Rightarrow> bridge_find_link n soup (parent p)))"

text \<open>The body of the loop over the elements of class \<open>global-header__nav-heading\<close>.\<close>

definition bridge_nav_show :: "datetime \<Rightarrow> node \<Rightarrow> string \<Rightarrow> path \<Rightarrow> TheaterShow" where
  "bridge_nav_show now soup theater_id' title_elem =
     (let title' = get_text soup title_elem;
          link_elem = bridge_find_link 3 soup (parent title_elem);
          show_url = absolute_url ''https://bridgetheatre.co.uk'' (href_or_empty soup link_elem);
          show_url' = (if show_url = []
                       then ''https://bridgetheatre.co.uk/performances/'' @
                            str_replace (lower title') '' '' ''-'' @ ''/''
                       else show_url)
      in (TheaterShow_init title' ''Bridge Theatre'' show_url' now)\<lparr>theater_id := theater_id'\<rparr>)"

text \<open>The scan of the headings \<open>h1\<close> to \<open>h6\<close> of the page.\<close>

definition bridge_heading_shows :: "datetime \<Rightarrow> node \<Rightarrow> string \<Rightarrow> string \<Rightarrow> TheaterShow list" where
  "bridge_heading_shows now soup theater_id' url' =
     map (\<lambda>text. (TheaterShow_init text ''Bridge Theatre'' url' now)\<lparr>theater_id := theater_id'\<rparr>)
       (filter plausible_title
          (map (get_text soup) (find_all soup [] [''h1'', ''h2'', ''h3'', ''h4'', ''h5'', ''h6''])))"

text \<open>The record the function appends when it has found no show.\<close>

definition bridge_mock_show :: "datetime \<Rightarrow> string \<Rightarrow> TheaterShow" where
  "bridge_mock_show now theater_id' =
     (TheaterShow_init ''Richard II'' ''Bridge Theatre''
        ''https://bridgetheatre.co.uk/performances/richard-ii/'' now)\<lparr>theater_id := theater_id'\<rparr>"

text \<open>
  \<open>extract_bridge_shows\<close>, up to its first \<open>return shows\<close> at the end of the general
  approach; the statements after it are never reached. The elements the two general
  selectors find are counted and not read: only their absence starts the heading scan.
\<close>

definition extract_bridge_shows :: "datetime \<Rightarrow> node \<Rightarrow> string \<Rightarrow> string \<Rightarrow> TheaterShow list" where
  "extract_bridge_shows now soup theater_id' url' =
     (let title_elements = select soup [] [[Class ''global-header__nav-heading'']];
          shows = (if title_elements \<noteq> []
                   then map (bridge_nav_show now soup theater_id') title_elements else [])
      in if title_elements \<noteq> [] \<and> shows \<noteq> [] then shows
         else
           let show_elements =
                 select soup [] [[Class ''performance''], [Class ''production''],
                                 [Class ''event-card''], [Class ''show-item'']];
               show_elements' =
                 (if show_elements = []
                  then select soup [] [[ClassContains ''performance'' False],
                                       [ClassContains ''production'' False],
                                       [ClassContains ''event'' False],
                                       [ClassContains ''show'' False]]
                  else show_elements);
               shows' = (if show_elements' = []
                         then shows @ bridge_heading_shows now soup theater_id' url'
                         else shows)
           in if shows' = [] then shows' @ [bridge_mock_show now theater_id'] else shows')"

section \<open>Donmar Warehouse (extract_donmar_shows)\<close>

text \<open>
  \<open>re.split(r'\s*[-\<dots>]\s*', s)\<close>, the class holding the hyphen and the en dash. A match is
  a dash with all the white space around it. The loop keeps the piece being read and
  the white space seen since its last other character; \<open>skipping\<close> says that a dash has
  just been read, whose following white space belongs to the match.
\<close>

definition is_dash :: "char \<Rightarrow> bool" where
  "is_dash c \<longleftrightarrow> c = CHR ''-'' \<or> c = en_dash"

fun split_dash_loop :: "bool \<Rightarrow> string \<Rightarrow> string \<Rightarrow> string \<Rightarrow> string list" where
  "split_dash_loop skipping piece ws [] = [piece @ ws]"
| "split_dash_loop skipping piece ws (c # cs) =
     (if is_dash c then piece # split_dash_loop True [] [] cs
      else if isspace c then
        (if skipping then split_dash_loop True [] [] cs
         else split_dash_loop False piece (ws @ [c]) cs)
      else split_dash_loop False (piece @ ws @ [c]) [] cs)"

definition re_split_dash :: "string \<Rightarrow> string list" where
  "re_split_dash s = split_dash_loop False [] [] s"

text \<open>
  The month patterns, matched with \<open>re.IGNORECASE\<close>. \<open>month_at prev s\<close>: one of the twelve
  abbreviations starts \<open>s\<close>, with a word boundary before it (\<open>prev\<close> is the character
  before \<open>s\<close>). \<open>word_end s\<close>: a word boundary after a word character that is followed by
  \<open>s\<close>.
\<close>

definition month_abbrevs :: "string list" where
  "month_abbrevs =
     [''jan'', ''feb'', ''mar'', ''apr'', ''may'', ''jun'', ''jul'', ''aug'', ''sep'', ''oct'', ''nov'', ''dec'']"

definition month_at :: "char option \<Rightarrow> string \<Rightarrow> bool" where
  "month_at prev s \<longleftrightarrow>
     (case prev of None \<Rightarrow> True | Some p \<Rightarrow> \<not> isword p) \<and>
     length s \<ge> 3 \<and> lower (take 3 s) \<in> set month_abbrevs"

definition word_end :: "string \<Rightarrow> bool" where
  "word_end s \<longleftrightarrow> s = [] \<or> \<not> isword (hd s)"

text \<open>\<open>re.search(r'\b(Jan|Feb|...|Dec)\b', s, re.IGNORECASE)\<close>, as a truth value.\<close>

fun re_search_month_from :: "char option \<Rightarrow> string \<Rightarrow> bool" where
  "re_search_month_from prev [] = False"
| "re_search_month_from prev (c # cs) =
     ((month_at prev (c # cs) \<and> word_end (drop 3 (c # cs))) \<or> re_search_month_from (Some c) cs)"

definition re_search_month :: "string \<Rightarrow> bool" where
  "re_search_month s = re_search_month_from None s"

text \<open>
  \<open>re.search(r'\b(Jan|...|Dec)(\s+\d{4})?\b', s, re.IGNORECASE)\<close>, returning \<open>group(0)\<close>.
  \<open>year_suffix s\<close> is the text the optional group and the final boundary match at the
  start of \<open>s\<close>: white space, four digits, a word boundary. Where the group cannot be
  used the month alone matches when a word boundary follows it.
\<close>

definition year_suffix :: "string \<Rightarrow> string option" where
  "year_suffix s =
     (let ws = takeWhile isspace s; r = dropWhile isspace s in
      if ws \<noteq> [] \<and> length r \<ge> 4 \<and> list_all isdigit (take 4 r) \<and> word_end (drop 4 r)
      then Some (ws @ take 4 r) else None)"

fun re_search_month_year_from :: "char option \<Rightarrow> string \<Rightarrow> string option" where
  "re_search_month_year_from prev [] = None"
| "re_search_month_year_from prev (c # cs) =
     (if month_at prev (c # cs) then
        (case year_suffix (drop 3 (c # cs)) of
           Some y \<Rightarrow> Some (take 3 (c # cs) @ y)
         | None \<Rightarrow>
             if word_end (drop 3 (c # cs)) then Some (take 3 (c # cs))
             else re_search_month_year_from (Some c) cs)
      else re_search_month_year_from (Some c) cs)"

definition re_search_month_year :: "string \<Rightarrow> string option" where
  "re_search_month_year s = re_search_month_year_from None s"

text \<open>
  Two calls of \<open>parse_date_string\<close> in a row, for the start and the end of a range: an
  exception of the first leaves before the second is made.
\<close>

definition parse_both ::
  "date_library \<Rightarrow> string \<Rightarrow> string \<Rightarrow> error + (datetime option \<times> datetime option)" where
  "parse_both lib start_date_str end_date_str =
     (case parse_date_string lib (Some start_date_str) of
        Inl e \<Rightarrow> Inl e
      | Inr start_date \<Rightarrow>
          (case parse_date_string lib (Some end_date_str) of
             Inl e \<Rightarrow> Inl e
           | Inr end_date \<Rightarrow> Inr (start_date, end_date)))"

text \<open>The block \<open>if date_range:\<close>, giving \<open>(start_date, end_date)\<close>.\<close>

definition donmar_dates ::
  "date_library \<Rightarrow> string \<Rightarrow> error + (datetime option \<times> datetime option)" where
  "donmar_dates lib date_range =
     (if date_range = [] then Inr (None, None)
      else
        let date_range' = strip (re_sub_ws date_range);
            date_parts = re_split_dash date_range'
        in if length date_parts = 2 then
             let start_date_str = strip (date_parts ! 0);
                 end_date_str = strip (date_parts ! 1);
                 end_date_str' =
                   (if re_search_month start_date_str \<and> \<not> re_search_month end_date_str
                    then (case re_search_month_year start_date_str of
                            Some g \<Rightarrow> end_date_str @ '' '' @ g
                          | None \<Rightarrow> end_date_str)
                    else end_date_str)
             in parse_both lib start_date_str end_date_str'
           else
             (case parse_date_string lib (Some date_range') of
                Inl e \<Rightarrow> Inl e
              | Inr start_date \<Rightarrow> Inr (start_date, None)))"

text \<open>The three attempts to find the title element of a card.\<close>

definition donmar_title_elem :: "node \<Rightarrow> path \<Rightarrow> path option" where
  "donmar_title_elem soup show_elem =
     (case select_one soup show_elem [[Tag ''h2''], [Tag ''h3''], [Class ''eventCard__title'']] of
        Some t \<Rightarrow> Some t
      | None \<Rightarrow>
          (case select_one soup show_elem [[ClassContains ''title'' True]] of
             Some t \<Rightarrow> Some t
           | None \<Rightarrow> find soup show_elem [''h1'', ''h2'', ''h3'', ''h4'']))"

text \<open>
  The body of the loop over the cards. The result is \<open>None\<close> when the card gives no
  record: at \<open>continue\<close>, and when an exception reaches the \<open>except\<close> clause of the body.
\<close>

definition donmar_show ::
  "date_library \<Rightarrow> datetime \<Rightarrow> node \<Rightarrow> string \<Rightarrow> path \<Rightarrow> TheaterShow option" where
  "donmar_show lib now soup theater_id' show_elem =
     (case donmar_title_elem soup show_elem of
        None \<Rightarrow> None
      | Some title_elem \<Rightarrow>
          let title' = get_text soup title_elem;
              link_elem = (case select_one soup show_elem [[Tag ''a'']] of
                             Some l \<Rightarrow> Some l
                           | None \<Rightarrow> find soup title_elem [''a'']);
              show_url = absolute_url ''https://www.donmarwarehouse.com'' (href_or_empty soup link_elem);
              date_elem = select_one soup show_elem
                            [[Class ''eventCard__mainDate''], [Class ''eventCard__dates''],
                             [ClassContains ''date'' True]];
              date_range = (case date_elem of Some e \<Rightarrow> get_text soup e | None \<Rightarrow> [])
          in (case donmar_dates lib date_range of
                Inl e \<Rightarrow> None
              | Inr (start_date, end_date) \<Rightarrow>
                  let desc_elem = select_one soup show_elem
                                    [[Class ''eventCard__description''], [Class ''eventCard__snippet''],
                                     [ClassContains ''description'' True], [ClassContains ''snippet'' True],
                                     [Tag ''p'']];
                      description' =
                        (case desc_elem of
                           None \<Rightarrow> None
                         | Some e \<Rightarrow>
                             let d = get_text soup e in
                             if d \<noteq> [] \<and> length d < 10 then None else Some d);
                      price_elem = select_one soup show_elem
                                     [[Class ''eventCard__price''], [ClassContains ''price'' True],
                                      [ClassContains ''ticket'' True]];
                      price_range' = (case price_elem of Some e \<Rightarrow> Some (get_text soup e) | None \<Rightarrow> None)
                  in Some ((TheaterShow_init title' ''Donmar Warehouse'' show_url now)
                            \<lparr>performance_start_date := start_date,
                             performance_end_date := end_date,
                             description := description',
                             price_range := price_range',
                             theater_id := theater_id'\<rparr>)))"

definition extract_donmar_shows ::
  "date_library \<Rightarrow> datetime \<Rightarrow> node \<Rightarrow> string \<Rightarrow> string \<Rightarrow> TheaterShow list" where
  "extract_donmar_shows lib now soup theater_id' url' =
     List.map_filter (donmar_show lib now soup theater_id')
       (select soup [] [[Tag ''li'', Class ''eventCard'']])"

section \<open>The container loop seven extractors repeat\<close>

text \<open>
  Selector lists are written with three abbreviations: \<open>tags\<close> for tag names, \<open>classes\<close>
  for \<open>.c\<close>, \<open>class_contains\<close> for \<open>[class*="v"]\<close>.
\<close>

definition tags :: "string list \<Rightarrow> selector" where
  "tags ns = map (\<lambda>n. [Tag n]) ns"

definition classes :: "string list \<Rightarrow> selector" where
  "classes cs = map (\<lambda>c. [Class c]) cs"

definition class_contains :: "string list \<Rightarrow> selector" where
  "class_contains vs = map (\<lambda>v. [ClassContains v False]) vs"

text \<open>\<open>elem.get_text(strip=True) if elem else None\<close>.\<close>

definition text_of :: "node \<Rightarrow> path option \<Rightarrow> string option" where
  "text_of soup elem = (case elem of Some e \<Rightarrow> Some (get_text soup e) | None \<Rightarrow> None)"

text \<open>\<open>s.split(sep)\<close> for a non-empty \<open>sep\<close>; the counter skips the rest of a separator.\<close>

fun split_loop :: "nat \<Rightarrow> string \<Rightarrow> string \<Rightarrow> string \<Rightarrow> string list" where
  "split_loop k sep piece [] = [piece]"
| "split_loop (Suc k) sep piece (c # cs) = split_loop k sep piece cs"
| "split_loop 0 sep piece (c # cs) =
     (if startswith (c # cs) sep then piece # split_loop (length sep - 1) sep [] cs
      else split_loop 0 sep (piece @ [c]) cs)"

definition str_split :: "string \<Rightarrow> string \<Rightarrow> string list" where
  "str_split s sep = split_loop 0 sep [] s"

text \<open>\<open>re.search(r'\d{4}', s)\<close>, returning the text of the match.\<close>

fun re_search_4digits :: "string \<Rightarrow> string option" where
  "re_search_4digits [] = None"
| "re_search_4digits (c # cs) =
     (if length (c # cs) \<ge> 4 \<and> list_all isdigit (take 4 (c # cs)) then Some (take 4 (c # cs))
      else re_search_4digits cs)"

text \<open>
  The step of the Hampstead extractor that copies a year from the first part of a range
  to the second; the result is the new \<open>date_parts[1]\<close>.
\<close>

definition add_year_of :: "string \<Rightarrow> string \<Rightarrow> string" where
  "add_year_of part0 part1 =
     (case re_search_4digits part0 of
        None \<Rightarrow> part1
      | Some year' \<Rightarrow>
          if re_search_4digits part1 = None \<and> \<not> str_contains year' part1
          then part1 @ '' '' @ year' else part1)"

text \<open>
  The loop \<open>for sep in [...]\<close> over the separators of a date range. It ends at the first
  separator that occurs in the text and splits it in exactly two parts; when there is
  none both dates stay \<open>None\<close>. \<open>add_year\<close> is true for the Hampstead extractor.
\<close>

fun sep_loop ::
  "date_library \<Rightarrow> bool \<Rightarrow> string list \<Rightarrow> string \<Rightarrow> error + (datetime option \<times> datetime option)" where
  "sep_loop lib add_year [] date_range = Inr (None, None)"
| "sep_loop lib add_year (sep # seps) date_range =
     (if str_contains sep date_range then
        (let date_parts = str_split date_range sep in
         if length date_parts = 2 then
           parse_both lib (date_parts ! 0)
             (if add_year then add_year_of (date_parts ! 0) (date_parts ! 1) else date_parts ! 1)
         else sep_loop lib add_year seps date_range)
      else sep_loop lib add_year seps date_range)"

text \<open>
  The branches for "from" and "until"; \<open>till\<close> is false for the Marylebone extractor,
  which does not look for "till".
\<close>

definition from_until ::
  "date_library \<Rightarrow> bool \<Rightarrow> string \<Rightarrow> error + (datetime option \<times> datetime option)" where
  "from_until lib till date_range =
     (let low = lower date_range in
      if str_contains ''from'' low then
        (case parse_date_string lib (Some (strip (str_replace low ''from'' []))) of
           Inl e \<Rightarrow> Inl e
         | Inr start_date \<Rightarrow> Inr (start_date, None))
      else if str_contains ''until'' low \<or> (till \<and> str_contains ''till'' low) then
        (case parse_date_string lib
                (Some (strip (if till then str_replace (str_replace low ''until'' []) ''till'' []
                              else str_replace low ''until'' []))) of
           Inl e \<Rightarrow> Inl e
         | Inr end_date \<Rightarrow> Inr (None, end_date))
      else Inr (None, None))"

text \<open>The block \<open>if date_range:\<close> of the seven extractors.\<close>

definition generic_dates ::
  "date_library \<Rightarrow> bool \<Rightarrow> bool \<Rightarrow> string \<Rightarrow> error + (datetime option \<times> datetime option)" where
  "generic_dates lib add_year till date_range =
     (if date_range = [] then Inr (None, None)
      else
        let date_range' = strip (re_sub_ws date_range) in
        (case sep_loop lib add_year ['' - '', '' to '', [en_dash], ''-''] date_range' of
           Inl e \<Rightarrow> Inl e
         | Inr (start_date, end_date) \<Rightarrow>
             if start_date = None \<and> end_date = None then from_until lib till date_range'
             else Inr (start_date, end_date)))"

text \<open>
  The replacement for a missing title element: the first \<open>strong\<close>, \<open>b\<close> or \<open>a\<close> element
  with a text of more than three characters.
\<close>

definition prominent_text_elem :: "node \<Rightarrow> path \<Rightarrow> path option" where
  "prominent_text_elem soup show_elem =
     List.find (\<lambda>e. get_text soup e \<noteq> [] \<and> length (get_text soup e) > 3)
       (find_all soup show_elem [''strong'', ''b'', ''a''])"

text \<open>
  What differs between the seven copies of the loop body: the venue, the origin of the
  site, the selectors of the title, the date and the description, the year step of
  Hampstead, the word "till", and the venue of the page that the RSC extractor reads.
\<close>

record site =
  site_venue :: string
  site_origin :: string
  title_selector :: selector
  date_selector :: selector
  year_from_start :: bool
  with_till :: bool
  description_selector :: selector
  venue_override :: bool

definition price_selector :: selector where
  "price_selector = class_contains [''price'', ''cost'', ''ticket'']"

definition venue_selector :: selector where
  "venue_selector = class_contains [''venue'', ''location'']"

text \<open>
  \<open>f"{specific_venue} (RSC London)" if specific_venue else venue\<close>.
\<close>

definition final_venue :: "string option \<Rightarrow> string \<Rightarrow> string" where
  "final_venue specific_venue venue' =
     (case specific_venue of
        None \<Rightarrow> venue'
      | Some v \<Rightarrow> if v \<noteq> [] then v @ '' (RSC London)'' else venue')"

text \<open>
  The loop body. \<open>None\<close>: the container gives no record (\<open>continue\<close>, or an exception
  caught by the \<open>except\<close> clause of the body).
\<close>

definition container_show ::
  "site \<Rightarrow> date_library \<Rightarrow> datetime \<Rightarrow> node \<Rightarrow> string \<Rightarrow> path \<Rightarrow> TheaterShow option" where
  "container_show st lib now soup theater_id' show_elem =
     (case (case select_one soup show_elem (title_selector st) of
              Some t \<Rightarrow> Some t
            | None \<Rightarrow> prominent_text_elem soup show_elem) of
        None \<Rightarrow> None
      | Some title_elem \<Rightarrow>
          let title' = get_text soup title_elem;
              link_elem = (case find soup title_elem [''a''] of
                             Some l \<Rightarrow> Some l
                           | None \<Rightarrow> find soup show_elem [''a'']);
              show_url = absolute_url (site_origin st) (href_or_empty soup link_elem);
              date_elem = select_one soup show_elem (date_selector st);
              date_range = (case date_elem of Some e \<Rightarrow> get_text soup e | None \<Rightarrow> [])
          in (case generic_dates lib (year_from_start st) (with_till st) date_range of
                Inl e \<Rightarrow> None
              | Inr (start_date, end_date) \<Rightarrow>
                  let description' = text_of soup (select_one soup show_elem (description_selector st));
                      price_range' = text_of soup (select_one soup show_elem price_selector);
                      specific_venue =
                        (if venue_override st then text_of soup (select_one soup show_elem venue_selector)
                         else None)
                  in Some ((TheaterShow_init title' (final_venue specific_venue (site_venue st)) show_url now)
                            \<lparr>performance_start_date := start_date,
                             performance_end_date := end_date,
                             description := description',
                             price_range := price_range',
                             theater_id := theater_id'\<rparr>)))"

text \<open>
  A record made from a heading in the fallback scans: the title is the text of the
  heading, the address is that of a link in the heading (with \<open>up\<close>, else of a link in
  its parent), rewritten against the origin, or the address of the page when there is
  no link.
\<close>

definition heading_show ::
  "site \<Rightarrow> bool \<Rightarrow> datetime \<Rightarrow> node \<Rightarrow> string \<Rightarrow> string \<Rightarrow> path \<Rightarrow> TheaterShow" where
  "heading_show st up now soup theater_id' url' heading =
     (let link = (case find soup heading [''a''] of
                    Some l \<Rightarrow> Some l
                  | None \<Rightarrow>
                      if up then (case parent heading of Some p \<Rightarrow> find soup p [''a''] | None \<Rightarrow> None)
                      else None);
          link_url = absolute_url (site_origin st) (href_or_empty soup link)
      in (TheaterShow_init (get_text soup heading) (site_venue st)
            (if link_url \<noteq> [] then link_url else url') now)\<lparr>theater_id := theater_id'\<rparr>)"

definition headings_1_to_5 :: "string list" where
  "headings_1_to_5 = [''h1'', ''h2'', ''h3'', ''h4'', ''h5'']"

text \<open>
  The scan below \<open>main, #content, .content, .main-content\<close>, or below the document when
  there is no such element, of the Soho and Royal Court extractors.
\<close>

definition main_content_shows ::
  "site \<Rightarrow> datetime \<Rightarrow> node \<Rightarrow> string \<Rightarrow> string \<Rightarrow> TheaterShow list" where
  "main_content_shows st now soup theater_id' url' =
     (let main_content = select_one soup []
            ([[Tag ''main''], [Id ''content'']] @ classes [''content'', ''main-content'']);
          headings = (case main_content of
                        Some m \<Rightarrow> find_all soup m headings_1_to_5
                      | None \<Rightarrow> find_all soup [] headings_1_to_5)
      in map (heading_show st False now soup theater_id' url')
           (filter (\<lambda>h. plausible_title (get_text soup h)) headings))"

section \<open>National Theatre (extract_national_shows)\<close>

text \<open>The date block of the National Theatre extractor.\<close>

definition national_dates ::
  "date_library \<Rightarrow> string \<Rightarrow> error + (datetime option \<times> datetime option)" where
  "national_dates lib date_range =
     (if date_range = [] then Inr (None, None)
      else
        let date_range' = strip (re_sub_ws date_range) in
        if str_contains '' - '' date_range' \<or> str_contains '' to '' date_range' \<or>
           str_contains [en_dash] date_range'
        then sep_loop lib False ['' - '', '' to '', [en_dash]] date_range'
        else from_until lib True date_range')"

text \<open>\<open>first.select_one(a) or first.select_one(b)\<close>: the second selector is a fallback.\<close>

definition select_one_or :: "node \<Rightarrow> path \<Rightarrow> selector \<Rightarrow> selector \<Rightarrow> path option" where
  "select_one_or soup p sel alt =
     (case select_one soup p sel of Some e \<Rightarrow> Some e | None \<Rightarrow> select_one soup p alt)"

definition national_title_elem :: "node \<Rightarrow> path \<Rightarrow> path option" where
  "national_title_elem soup show_elem =
     (case select_one soup show_elem (classes [''c-event-card__title'']) of
        Some t \<Rightarrow> Some t
      | None \<Rightarrow>
          select_one_or soup show_elem
            (classes [''production-card__title'', ''show-card__title'', ''nt-card__title''] @
             [[Tag ''h3'', Class ''nt-listing-item__title'']])
            (tags [''h1'', ''h2'', ''h3'', ''h4''] @ class_contains [''title'']))"

definition national_show ::
  "date_library \<Rightarrow> datetime \<Rightarrow> node \<Rightarrow> string \<Rightarrow> path \<Rightarrow> TheaterShow option" where
  "national_show lib now soup theater_id' show_elem =
     (case national_title_elem soup show_elem of
        None \<Rightarrow> None
      | Some title_elem \<Rightarrow>
          let title' = get_text soup title_elem;
              link_elem = (case select_one soup show_elem [[Tag ''a'']] of
                             Some l \<Rightarrow> Some l
                           | None \<Rightarrow> find soup title_elem [''a'']);
              show_url = href_or_empty soup link_elem;
              show_url' = (if show_url \<noteq> [] \<and> \<not> startswith show_url ''http''
                           then ''https://www.nationaltheatre.org.uk'' @ show_url else show_url);
              dates_elem = select_one_or soup show_elem
                             (classes [''c-event-card__date'', ''c-event-card__dates''])
                             (classes [''production-card__dates'', ''show-card__dates'', ''nt-card__dates'',
                                       ''nt-listing-item__dates''] @ class_contains [''date'']);
              date_range = (case dates_elem of Some e \<Rightarrow> get_text soup e | None \<Rightarrow> [])
          in (case national_dates lib date_range of
                Inl e \<Rightarrow> None
              | Inr (start_date, end_date) \<Rightarrow>
                  let description' = text_of soup (select_one_or soup show_elem
                        (classes [''c-event-card__description''])
                        (classes [''production-card__description'', ''show-card__description'',
                                  ''nt-card__description'', ''nt-listing-item__description''] @
                         class_contains [''description''] @ tags [''p'']));
                      price_range' = text_of soup (select_one_or soup show_elem
                        (classes [''c-event-card__price''])
                        (classes [''production-card__pricing'', ''show-card__pricing'',
                                  ''nt-card__pricing'', ''nt-listing-item__pricing''] @
                         class_contains [''price'', ''ticket'']));
                      genre' = text_of soup (select_one_or soup show_elem
                        (classes [''c-event-card__genre''])
                        (classes [''production-card__genre'', ''show-card__genre'',
                                  ''nt-card__genre'', ''nt-listing-item__genre''] @
                         class_contains [''genre'', ''type'']))
                  in Some ((TheaterShow_init title' ''National Theatre'' show_url' now)
                            \<lparr>performance_start_date := start_date,
                             performance_end_date := end_date,
                             price_range := price_range',
                             description := description',
                             genre := genre',
                             theater_id := theater_id'\<rparr>)))"

definition extract_national_shows ::
  "date_library \<Rightarrow> datetime \<Rightarrow> node \<Rightarrow> string \<Rightarrow> string \<Rightarrow> TheaterShow list" where
  "extract_national_shows lib now soup theater_id' url' =
     (let show_elements = select soup [] (classes [''c-event-card'']);
          show_elements' =
            (if show_elements = []
             then select soup [] (classes [''production-card'', ''show-card'', ''nt-card--production'',
                                           ''nt-listing-item''])
             else show_elements);
          show_elements'' =
            (if show_elements' = []
             then select soup [] (class_contains [''event-card'', ''show-card'', ''production-card''])
             else show_elements')
      in List.map_filter (national_show lib now soup theater_id') show_elements'')"

section \<open>Hampstead Theatre (extract_hampstead_shows)\<close>

definition hampstead_site :: site where
  "hampstead_site =
     \<lparr>site_venue = ''Hampstead Theatre'',
      site_origin = ''https://www.hampsteadtheatre.com'',
      title_selector = tags headings_1_to_5 @ class_contains [''title''],
      date_selector = class_contains [''date'', ''time'', ''when'', ''period''],
      year_from_start = True,
      with_till = True,
      description_selector =
        class_contains [''description'', ''summary'', ''synopsis'', ''excerpt'', ''content''],
      venue_override = False\<rparr>"

text \<open>\<open>grid.find_all(['li', 'article', 'div'], class_=True)\<close>: the elements with a class attribute.\<close>

definition find_all_with_class :: "node \<Rightarrow> path \<Rightarrow> string list \<Rightarrow> path list" where
  "find_all_with_class soup p names =
     filter (\<lambda>q. map_of (attrs_at soup q) ''class'' \<noteq> None) (find_all soup p names)"

definition extract_hampstead_shows ::
  "date_library \<Rightarrow> datetime \<Rightarrow> node \<Rightarrow> string \<Rightarrow> string \<Rightarrow> TheaterShow list" where
  "extract_hampstead_shows lib now soup theater_id' url' =
     (let show_elements = select soup []
            (classes [''production'', ''production-item'', ''show-item'', ''event-item'', ''grid-item'']);
          show_elements' =
            (if show_elements = []
             then select soup [] (class_contains [''production'', ''show'', ''event''])
             else show_elements);
          show_elements'' =
            (if show_elements' = []
             then show_elements' @
                  concat (map (\<lambda>grid. find_all_with_class soup grid [''li'', ''article'', ''div''])
                            (select soup [] (classes [''productions-grid'', ''shows-grid'',
                                                      ''events-list'', ''whats-on-grid''])))
             else show_elements');
          shows = List.map_filter (container_show hampstead_site lib now soup theater_id') show_elements''
      in if shows = []
         then shows @
              map (\<lambda>text. (TheaterShow_init text ''Hampstead Theatre'' url' now)\<lparr>theater_id := theater_id'\<rparr>)
                (filter plausible_title (map (get_text soup) (find_all soup [] headings_1_to_5)))
         else shows)"

section \<open>Marylebone Theatre (extract_marylebone_shows)\<close>

definition marylebone_site :: site where
  "marylebone_site =
     \<lparr>site_venue = ''Marylebone Theatre'',
      site_origin = ''https://www.marylebonetheatre.com'',
      title_selector = tags headings_1_to_5 @ class_contains [''title''],
      date_selector = class_contains [''date'', ''time'', ''when''],
      year_from_start = False,
      with_till = False,
      description_selector = class_contains [''description'', ''summary'', ''excerpt''] @ tags [''p''],
      venue_override = False\<rparr>"

definition extract_marylebone_shows ::
  "date_library \<Rightarrow> datetime \<Rightarrow> node \<Rightarrow> string \<Rightarrow> string \<Rightarrow> TheaterShow list" where
  "extract_marylebone_shows lib now soup theater_id' url' =
     (let show_elements = select soup [] (classes [''event-item'', ''production-item'', ''show-item'']);
          show_elements' =
            (if show_elements = []
             then select soup [] (classes [''card''] @ tags [''article''] @
                                  class_contains [''event'', ''show'', ''production''])
             else show_elements);
          shows = List.map_filter (container_show marylebone_site lib now soup theater_id') show_elements'
      in if shows = []
         then shows @
              concat (map (\<lambda>section.
                             map (heading_show marylebone_site False now soup theater_id' url')
                               (filter (\<lambda>h. plausible_title (get_text soup h))
                                  (find_all soup section headings_1_to_5)))
                        (select soup [] ([[Id ''Whats-On''], [Id ''whats-on''], [Id ''events''],
                                          [Id ''productions'']] @ class_contains [''whats-on'', ''events''])))
         else shows)"

section \<open>Soho Theatre and Royal Court (extract_soho_dean_shows, extract_soho_walthamstow_shows, extract_royal_court_shows)\<close>

text \<open>
  The values that the extractors for Soho, Royal Court, Drury Lane and the RSC share;
  they differ in the venue and the origin.
\<close>

definition common_site :: "string \<Rightarrow> string \<Rightarrow> site" where
  "common_site venue' origin =
     \<lparr>site_venue = venue',
      site_origin = origin,
      title_selector = tags [''h1'', ''h2'', ''h3'', ''h4''] @ class_contains [''title''],
      date_selector = class_contains [''date'', ''time'', ''when'', ''period''],
      year_from_start = False,
      with_till = True,
      description_selector =
        class_contains [''description'', ''summary'', ''excerpt'', ''content''] @ tags [''p''],
      venue_override = False\<rparr>"

definition soho_dean_site :: site where
  "soho_dean_site = common_site ''Soho Theatre (Dean Street)'' ''https://sohotheatre.com''"

definition soho_walthamstow_site :: site where
  "soho_walthamstow_site = common_site ''Soho Theatre (Walthamstow)'' ''https://sohotheatre.com''"

definition royal_court_site :: site where
  "royal_court_site = common_site ''Royal Court Theatre'' ''https://royalcourttheatre.com''"

text \<open>The two Soho extractors have the same text but for the venue.\<close>

definition extract_soho_shows ::
  "site \<Rightarrow> date_library \<Rightarrow> datetime \<Rightarrow> node \<Rightarrow> string \<Rightarrow> string \<Rightarrow> TheaterShow list" where
  "extract_soho_shows st lib now soup theater_id' url' =
     (let show_elements = select soup [] (classes [''show'', ''event'', ''production''] @ tags [''article'']);
          show_elements' =
            (if show_elements = []
             then select soup [] (classes [''item'', ''card''] @
                                  class_contains [''show'', ''event'', ''production''])
             else show_elements);
          shows = List.map_filter (container_show st lib now soup theater_id') show_elements'
      in if shows = [] then shows @ main_content_shows st now soup theater_id' url' else shows)"

definition extract_soho_dean_shows ::
  "date_library \<Rightarrow> datetime \<Rightarrow> node \<Rightarrow> string \<Rightarrow> string \<Rightarrow> TheaterShow list" where
  "extract_soho_dean_shows = extract_soho_shows soho_dean_site"

definition extract_soho_walthamstow_shows ::
  "date_library \<Rightarrow> datetime \<Rightarrow> node \<Rightarrow> string \<Rightarrow> string \<Rightarrow> TheaterShow list" where
  "extract_soho_walthamstow_shows = extract_soho_shows soho_walthamstow_site"

definition extract_royal_court_shows ::
  "date_library \<Rightarrow> datetime \<Rightarrow> node \<Rightarrow> string \<Rightarrow> string \<Rightarrow> TheaterShow list" where
  "extract_royal_court_shows lib now soup theater_id' url' =
     (let show_elements = select soup []
            (classes [''production'', ''show-item''] @ [[Tag ''article'', Class ''production'']] @
             classes [''event-item'']);
          show_elements' =
            (if show_elements = []
             then select soup [] (class_contains [''production'', ''show'', ''event''] @
                                  tags [''article''] @ classes [''whats-on-item''])
             else show_elements);
          shows = List.map_filter (container_show royal_court_site lib now soup theater_id') show_elements'
      in if shows = [] then shows @ main_content_shows royal_court_site now soup theater_id' url'
         else shows)"

section \<open>Drury Lane Theatre (extract_drury_lane_shows)\<close>

definition drury_lane_site :: site where
  "drury_lane_site = common_site ''Drury Lane Theatre'' ''https://drurylanetheatre.com''"

text \<open>
  \<open>soup.find(name, attrs={key: value})\<close>: the first element with the tag name whose
  attribute \<open>key\<close> has the value.
\<close>

definition find_with_attr :: "node \<Rightarrow> string \<Rightarrow> string \<Rightarrow> string \<Rightarrow> path option" where
  "find_with_attr soup name' key' value' =
     List.find (\<lambda>q. map_of (attrs_at soup q) key' = Some value') (find_all soup [] [name'])"

text \<open>
  \<open>tag.string\<close>: the string of a node with a single child, followed down through single
  children; a string of any type counts.
\<close>

fun node_string :: "node \<Rightarrow> string option" where
  "node_string (Text s) = Some s"
| "node_string (Comment s) = Some s"
| "node_string (Contained k s) = Some s"
| "node_string (Element t a []) = None"
| "node_string (Element t a [c]) = node_string c"
| "node_string (Element t a (c # d # cs)) = None"

text \<open>\<open>text.split('|')[0].strip()\<close>.\<close>

definition before_bar :: "string \<Rightarrow> string" where
  "before_bar text = strip (hd (str_split text ''|''))"

text \<open>
  The last resort: a title from the meta tags or from the title of the page, cut at
  the first bar. The result is the value of \<open>current_show\<close>.
\<close>

definition drury_lane_current_show :: "node \<Rightarrow> string option" where
  "drury_lane_current_show soup =
     (let meta_title = (case find_with_attr soup ''meta'' ''property'' ''og:title'' of
                          Some m \<Rightarrow> Some m
                        | None \<Rightarrow> find_with_attr soup ''meta'' ''name'' ''title'');
          current_show =
            (case meta_title of
               None \<Rightarrow> None
             | Some m \<Rightarrow>
                 (case map_of (attrs_at soup m) ''content'' of
                    None \<Rightarrow> None
                  | Some content \<Rightarrow>
                      if str_contains ''|'' content then Some (before_bar content) else None))
      in if current_show = None \<or> current_show = Some [] then
           (case find soup [] [''title''] of
              None \<Rightarrow> current_show
            | Some t \<Rightarrow>
                (case node_at soup t of
                   None \<Rightarrow> current_show
                 | Some n \<Rightarrow>
                     (case node_string n of
                        None \<Rightarrow> current_show
                      | Some title_text \<Rightarrow>
                          if title_text \<noteq> [] \<and> str_contains ''|'' title_text
                          then Some (before_bar title_text) else current_show)))
         else current_show)"

definition extract_drury_lane_shows ::
  "date_library \<Rightarrow> datetime \<Rightarrow> node \<Rightarrow> string \<Rightarrow> string \<Rightarrow> TheaterShow list" where
  "extract_drury_lane_shows lib now soup theater_id' url' =
     (let show_elements = select soup [] (classes [''show'', ''production'', ''event-item''] @ tags [''article'']);
          show_elements' =
            (if show_elements = []
             then select soup [] (class_contains [''show'', ''production'', ''event'', ''performance''])
             else show_elements);
          shows = List.map_filter (container_show drury_lane_site lib now soup theater_id') show_elements';
          shows' =
            (if shows = [] then
               (case filter (\<lambda>h. plausible_title (get_text soup h))
                       (find_all_with_class soup [] [''h1'', ''h2'', ''h3'']) of
                  [] \<Rightarrow> shows
                | heading # rest \<Rightarrow>
                    shows @ [heading_show drury_lane_site True now soup theater_id' url' heading])
             else shows)
      in if shows' = [] then
           (case drury_lane_current_show soup of
              None \<Rightarrow> shows'
            | Some current_show \<Rightarrow>
                if current_show \<noteq> [] \<and> lower current_show \<notin> set [''home'', ''welcome'', ''drury lane'']
                then shows' @ [(TheaterShow_init current_show ''Drury Lane Theatre'' url' now)
                                 \<lparr>theater_id := theater_id'\<rparr>]
                else shows')
         else shows')"

section \<open>Royal Shakespeare Company (extract_rsc_shows)\<close>

definition rsc_site :: site where
  "rsc_site =
     (common_site ''Royal Shakespeare Company (London)'' ''https://www.rsc.org.uk'')
       \<lparr>venue_override := True\<rparr>"

text \<open>
  \<open>tag.find_parent(name)\<close>: the nearest element above the tag with the name. The
  elements above a tag are the proper prefixes of its path, the longest first.
\<close>

definition ancestors :: "path \<Rightarrow> path list" where
  "ancestors p = map (\<lambda>n. take n p) (rev [0..<length p])"

definition find_parent :: "node \<Rightarrow> path \<Rightarrow> string \<Rightarrow> path option" where
  "find_parent soup p name' = List.find (\<lambda>q. name_at soup q = Some name') (ancestors p)"

text \<open>
  The body of the loop over the elements \<open>h3.title.title\<close>. The fields are read from the
  nearest \<open>article\<close>, else the nearest \<open>div\<close>, else the parent of the title element.
\<close>

definition rsc_title_show ::
  "date_library \<Rightarrow> datetime \<Rightarrow> node \<Rightarrow> string \<Rightarrow> path \<Rightarrow> TheaterShow option" where
  "rsc_title_show lib now soup theater_id' title_elem =
     (let title' = get_text soup title_elem;
          parent_elem = (case find_parent soup title_elem ''article'' of
                           Some p \<Rightarrow> Some p
                         | None \<Rightarrow>
                             (case find_parent soup title_elem ''div'' of
                                Some p \<Rightarrow> Some p
                              | None \<Rightarrow> parent title_elem));
          link_elem = (case parent_elem of Some p \<Rightarrow> find soup p [''a''] | None \<Rightarrow> None);
          link_elem' = (case link_elem of Some l \<Rightarrow> Some l | None \<Rightarrow> find_parent soup title_elem ''a'');
          link_elem'' = (case link_elem' of Some l \<Rightarrow> Some l | None \<Rightarrow> find soup title_elem [''a'']);
          show_url = absolute_url ''https://www.rsc.org.uk'' (href_or_empty soup link_elem'');
          show_url' = (if show_url = []
                       then ''https://www.rsc.org.uk/whats-on/'' @
                            str_replace (lower title') '' '' ''-'' @ ''/''
                       else show_url);
          within = (\<lambda>sel. case parent_elem of Some p \<Rightarrow> select_one soup p sel | None \<Rightarrow> None);
          date_elem = within (class_contains [''date'', ''time'', ''when'']);
          date_range = (case date_elem of Some e \<Rightarrow> get_text soup e | None \<Rightarrow> [])
      in (case generic_dates lib False True date_range of
            Inl e \<Rightarrow> None
          | Inr (start_date, end_date) \<Rightarrow>
              let description' = text_of soup (within (description_selector rsc_site));
                  price_range' = text_of soup (within price_selector);
                  specific_venue = text_of soup (within venue_selector)
              in Some ((TheaterShow_init title' (final_venue specific_venue (site_venue rsc_site)) show_url' now)
                        \<lparr>performance_start_date := start_date,
                         performance_end_date := end_date,
                         description := description',
                         price_range := price_range',
                         theater_id := theater_id'\<rparr>)))"

text \<open>
  \<open>soup.find_all(string=re.compile(r'My Neighbour Totoro', re.IGNORECASE))\<close> and the loop
  over its result: is there a string of the document, of any type, that holds the title, in any case of
  its letters, and whose parent is not a \<open>meta\<close>, \<open>title\<close>, \<open>script\<close> or \<open>style\<close> element.
\<close>

definition string_at :: "node \<Rightarrow> path \<Rightarrow> string option" where
  "string_at soup q =
     (case node_at soup q of
        Some (Text s) \<Rightarrow> Some s
      | Some (Comment s) \<Rightarrow> Some s
      | Some (Contained k s) \<Rightarrow> Some s
      | _ \<Rightarrow> None)"

definition totoro_found :: "node \<Rightarrow> bool" where
  "totoro_found soup =
     list_ex (\<lambda>q. case string_at soup q of
                    None \<Rightarrow> False
                  | Some s \<Rightarrow>
                      str_contains ''my neighbour totoro'' (lower s) \<and>
                      (case parent q of
                         None \<Rightarrow> True
                       | Some p \<Rightarrow>
                           (case name_at soup p of
                              None \<Rightarrow> True
                            | Some n \<Rightarrow> n \<notin> set [''meta'', ''title'', ''script'', ''style''])))
       (descendants soup [])"

definition extract_rsc_shows ::
  "date_library \<Rightarrow> datetime \<Rightarrow> node \<Rightarrow> string \<Rightarrow> string \<Rightarrow> TheaterShow list" where
  "extract_rsc_shows lib now soup theater_id' url' =
     (let title_elements = select soup [] [[Tag ''h3'', Class ''title'', Class ''title'']];
          shows = List.map_filter (rsc_title_show lib now soup theater_id') title_elements;
          shows' =
            (if shows = [] then
               (let show_elements = select soup []
                      (classes [''production-card'', ''event-card'', ''show-card''] @
                       [[Tag ''article'', Class ''production'']]);
                    show_elements' =
                      (if show_elements = []
                       then select soup [] (class_contains [''production'', ''show'', ''event''] @
                                            tags [''article''])
                       else show_elements)
                in shows @ List.map_filter (container_show rsc_site lib now soup theater_id') show_elements')
             else shows);
          shows'' =
            (if shows' = [] \<and> totoro_found soup
             then shows' @ [(TheaterShow_init ''My Neighbour Totoro'' ''Royal Shakespeare Company (London)''
                               ''https://www.rsc.org.uk/my-neighbour-totoro/'' now)
                              \<lparr>theater_id := theater_id'\<rparr>]
             else shows')
      in if shows'' = [] then
           (let whats_on_section = select_one soup []
                  ([[Id ''whats-on''], [Class ''whats-on''], [Id ''productions''], [Class ''productions''],
                    [Tag ''main''], [Id ''content'']]);
                headings = (case whats_on_section of
                              Some w \<Rightarrow> find_all soup w headings_1_to_5
                            | None \<Rightarrow> find_all soup [] headings_1_to_5)
            in shows'' @ map (heading_show rsc_site True now soup theater_id' url')
                           (filter (\<lambda>h. plausible_title (get_text soup h)) headings))
         else shows'')"

section \<open>The dispatcher (parse_theater_page)\<close>

text \<open>
  An extractor takes the date library, the clock, the parsed document, the identifier
  of the site and the address of the page. \<open>extract_show_details\<close> is the generic one,
  which returns the empty list.
\<close>

type_synonym extractor =
  "date_library \<Rightarrow> datetime \<Rightarrow> node \<Rightarrow> string \<Rightarrow> string \<Rightarrow> TheaterShow list"

definition extract_show_details :: extractor where
  "extract_show_details lib now soup theater_id' url' = []"

text \<open>The dictionary \<open>THEATER_PARSERS\<close>, in the order it is written.\<close>

definition THEATER_PARSERS :: "(string \<times> extractor) list" where
  "THEATER_PARSERS =
     [(''donmar'', extract_donmar_shows),
      (''national'', extract_national_shows),
      (''bridge'', \<lambda>lib. extract_bridge_shows),
      (''hampstead'', extract_hampstead_shows),
      (''marylebone'', extract_marylebone_shows),
      (''soho_dean'', extract_soho_dean_shows),
      (''soho_walthamstow'', extract_soho_walthamstow_shows),
      (''rsc'', extract_rsc_shows),
      (''royal_court'', extract_royal_court_shows),
      (''drury_lane'', extract_drury_lane_shows)]"

text \<open>
  \<open>parse_theater_page\<close>. The parser \<open>BeautifulSoup(html_content, 'lxml')\<close> is the parameter
  \<open>parse_html\<close>; \<open>THEATER_PARSERS.get(theater_id, extract_show_details)\<close> is the lookup
  with the generic extractor as its default.
\<close>

definition parse_theater_page ::
  "(string \<Rightarrow> node) \<Rightarrow> date_library \<Rightarrow> datetime \<Rightarrow> string \<Rightarrow> string \<Rightarrow> string \<Rightarrow> TheaterShow list" where
  "parse_theater_page parse_html lib now html_content theater_id' url' =
     (if html_content = [] then []
      else
        let soup = parse_html html_content;
            parser_func = (case map_of THEATER_PARSERS theater_id' of
                             Some f \<Rightarrow> f
                           | None \<Rightarrow> extract_show_details)
        in parser_func lib now soup theater_id' url')"

text \<open>
  The record of a sequence that occurs last among those with the key \<open>k\<close>: the notion
  the properties of the dictionary are stated with.
\<close>

definition last_with_key :: "TheaterShow list \<Rightarrow> show_key \<Rightarrow> TheaterShow option" where
  "last_with_key shows k = List.find (\<lambda>s. show_key s = k) (rev shows)"

section \<open>Records used as concrete inputs\<close>

definition show_1 :: TheaterShow where
  "show_1 = (TheaterShow_init ''Show 1'' ''Theatre A'' ''https://example.com/show1'' (midnight 2025 2 1))
     \<lparr>performance_start_date := Some (midnight 2025 3 1), price_range := Some ''20-50''\<rparr>"

definition show_1_prev :: TheaterShow where
  "show_1_prev = show_1\<lparr>performance_start_date := Some (midnight 2025 3 10)\<rparr>"

definition show_2 :: TheaterShow where
  "show_2 = (TheaterShow_init ''Show 2'' ''Theatre B'' ''https://example.com/show2'' (midnight 2025 2 1))
     \<lparr>description := Some ''An exciting show''\<rparr>"

definition show_2_prev :: TheaterShow where
  "show_2_prev = show_2\<lparr>url := ''https://example.com/old'', genre := Some ''Drama''\<rparr>"

definition show_3 :: TheaterShow where
  "show_3 = (TheaterShow_init ''Show 3'' ''Theatre C'' ''https://example.com/show3'' (midnight 2025 2 1))
     \<lparr>performance_start_date := Some (midnight 2025 5 1)\<rparr>"

definition show_4 :: TheaterShow where
  "show_4 = (TheaterShow_init ''Show 4'' ''Theatre D'' ''https://example.com/show4'' (midnight 2025 2 1))
     \<lparr>performance_start_date := Some (midnight 2025 6 1)\<rparr>"

text \<open>
  Stand-ins for the date library at concrete inputs. \<open>sample_library\<close> answers on five
  strings as the library does and raises ValueError on every other string. It reads
  three of them as the dates they state. In "15 Mar 2025 (2024 revival)" the library
  takes the second number, which comes after a complete date, for the time 20:24. In
  "1 June 0001" it takes the year for a year without century and adds one.
  \<open>misreading_library\<close> reads a string as a date it does not state, the failure the checks
  of \<open>parse_date_string\<close> guard against.
\<close>

definition sample_library :: date_library where
  "sample_library =
     \<lparr>parse_dayfirst = (\<lambda>s. if s = ''01/06/2025'' then Parsed (midnight 2025 6 1) else ValueError),
      parse_fuzzy = (\<lambda>s. if s = ''15 Mar 2024'' then Parsed (midnight 2024 3 15)
                         else if s = ''1 June 2025'' then Parsed (midnight 2025 6 1)
                         else if s = ''15 Mar 2025 (2024 revival)''
                           then Parsed ((midnight 2025 3 15)\<lparr>hour := 20, minute := 24\<rparr>)
                         else if s = ''1 June 0001'' then Parsed (midnight 2001 6 1)
                         else ValueError)\<rparr>"


text \<open>
  Two parsed pages. \<open>empty_page\<close> is the document of \<open><html><body></body></html>\<close>: it
  has no element any selector of an extractor finds and no heading. \<open>blank_title_page\<close>
  holds one Donmar card whose heading is empty:
  \<open><ul><li class="eventCard"><h2></h2></li></ul>\<close>.
\<close>

definition empty_page :: node where
  "empty_page = Element ''[document]'' [] [Element ''html'' [] [Element ''body'' [] []]]"

definition blank_title_page :: node where
  "blank_title_page =
     Element ''[document]'' []
       [Element ''html'' []
          [Element ''body'' []
             [Element ''ul'' []
                [Element ''li'' [(''class'', ''eventCard'')] [Element ''h2'' [] []]]]]]"

section \<open>Properties of the snapshot comparison\<close>

subsection \<open>The dictionary and the three result lists\<close>

lemma map_of_dict_set: "map_of (dict_set d k v) = (map_of d)(k \<mapsto> v)"
  by (induction d k v rule: dict_set.induct) (auto simp: fun_eq_iff)

lemma keys_dict_set:
  "map fst (dict_set d k v) = (if k \<in> fst ` set d then map fst d else map fst d @ [k])"
  by (induction d k v rule: dict_set.induct) auto

lemma dict_set_fresh: "k \<notin> fst ` set d \<Longrightarrow> dict_set d k v = d @ [(k, v)]"
  by (induction d k v rule: dict_set.induct) auto

lemma distinct_dict_set: "distinct (map fst d) \<Longrightarrow> distinct (map fst (dict_set d k v))"
  by (simp add: keys_dict_set)

lemma shows_dict_snoc:
  "shows_dict (xs @ [x]) = dict_set (shows_dict xs) (show_key x) x"
  by (simp add: shows_dict_def)

lemma distinct_shows_dict: "distinct (map fst (shows_dict xs))"
  by (induction xs rule: rev_induct) (simp_all add: shows_dict_snoc distinct_dict_set, simp add: shows_dict_def)

lemma map_of_shows_dict:
  "map_of (shows_dict xs) k = List.find (\<lambda>s. show_key s = k) (rev xs)"
  by (induction xs rule: rev_induct) (simp_all add: shows_dict_snoc map_of_dict_set, simp add: shows_dict_def)

lemma shows_dict_distinct_keys:
  "distinct (map show_key xs) \<Longrightarrow> shows_dict xs = map (\<lambda>s. (show_key s, s)) xs"
proof (induction xs rule: rev_induct)
  case Nil
  then show ?case by (simp add: shows_dict_def)
next
  case (snoc x xs)
  then have "show_key x \<notin> fst ` set (shows_dict xs)" by (auto simp: image_iff)
  with snoc show ?case by (simp add: shows_dict_snoc dict_set_fresh)
qed

lemma classify_loop_eq:
  "classify_loop prev items (n, u, c) =
     (n @ [s. (k, s) \<leftarrow> items, map_of prev k = None],
      u @ concat (map (\<lambda>(k, s). case map_of prev k of None \<Rightarrow> [] | Some p \<Rightarrow> if fields_differ s p then [\<lparr>current = s, previous = p\<rparr>] else []) items),
      c @ concat (map (\<lambda>(k, s). case map_of prev k of None \<Rightarrow> [] | Some p \<Rightarrow> if fields_differ s p then [] else [s]) items))"
  by (induction prev items "(n, u, c)" arbitrary: n u c rule: classify_loop.induct) (auto split: option.splits)

lemma find_Some_mem: "List.find P xs = Some x \<Longrightarrow> P x \<and> x \<in> set xs"
  by (induction xs) (auto split: if_splits)

lemma last_with_key_SomeD:
  assumes "last_with_key xs k = Some s"
  shows "s \<in> set xs" and "show_key s = k"
  using assms find_Some_mem [of "\<lambda>s. show_key s = k" "rev xs" s]
  by (simp_all add: last_with_key_def)

lemma last_with_key_None: "last_with_key xs k = None \<longleftrightarrow> k \<notin> show_key ` set xs"
  unfolding last_with_key_def find_None_iff by (simp add: image_iff) blast

lemma lookup_shows_dict: "map_of (shows_dict xs) k = last_with_key xs k"
  by (simp add: map_of_shows_dict last_with_key_def)

lemma items_shows_dict:
  "(k, s) \<in> set (shows_dict xs) \<longleftrightarrow> last_with_key xs k = Some s"
  using distinct_shows_dict [of xs] lookup_shows_dict [of xs k]
  by (metis map_of_eq_Some_iff)

lemma new_shows_eq:
  "new_shows (compare_snapshots cur prev) =
     [s. (k, s) \<leftarrow> shows_dict cur, last_with_key prev k = None]"
  by (simp add: compare_snapshots_def classify_loop_eq lookup_shows_dict Let_def)

lemma updated_shows_eq:
  "updated_shows (compare_snapshots cur prev) =
     concat (map (\<lambda>(k, s). case last_with_key prev k of None \<Rightarrow> []
        | Some p \<Rightarrow> if fields_differ s p then [\<lparr>current = s, previous = p\<rparr>] else []) (shows_dict cur))"
  by (simp add: compare_snapshots_def classify_loop_eq lookup_shows_dict Let_def)

lemma unchanged_shows_eq:
  "unchanged_shows (compare_snapshots cur prev) =
     concat (map (\<lambda>(k, s). case last_with_key prev k of None \<Rightarrow> []
        | Some p \<Rightarrow> if fields_differ s p then [] else [s]) (shows_dict cur))"
  by (simp add: compare_snapshots_def classify_loop_eq lookup_shows_dict Let_def)

lemma removed_shows_eq:
  "removed_shows (compare_snapshots cur prev) =
     [s. (k, s) \<leftarrow> shows_dict prev, last_with_key cur k = None]"
  by (simp add: compare_snapshots_def classify_loop_eq lookup_shows_dict Let_def split: prod.splits)

lemma in_new_shows:
  "s \<in> set (new_shows (compare_snapshots cur prev)) \<longleftrightarrow>
     last_with_key cur (show_key s) = Some s \<and> last_with_key prev (show_key s) = None"
proof -
  have "s \<in> set (new_shows (compare_snapshots cur prev)) \<longleftrightarrow>
          (\<exists>k. (k, s) \<in> set (shows_dict cur) \<and> last_with_key prev k = None)"
    unfolding new_shows_eq by (simp add: image_iff) force
  also have "\<dots> \<longleftrightarrow> last_with_key cur (show_key s) = Some s \<and> last_with_key prev (show_key s) = None"
    unfolding items_shows_dict using last_with_key_SomeD(2) by blast
  finally show ?thesis .
qed

lemma in_unchanged_shows:
  "s \<in> set (unchanged_shows (compare_snapshots cur prev)) \<longleftrightarrow>
     last_with_key cur (show_key s) = Some s \<and>
     (\<exists>p. last_with_key prev (show_key s) = Some p \<and> \<not> fields_differ s p)"
proof -
  have "s \<in> set (unchanged_shows (compare_snapshots cur prev)) \<longleftrightarrow>
          (\<exists>k. (k, s) \<in> set (shows_dict cur) \<and>
             (\<exists>p. last_with_key prev k = Some p \<and> \<not> fields_differ s p))"
    unfolding unchanged_shows_eq by (simp split: option.splits prod.splits) force
  also have "\<dots> \<longleftrightarrow> last_with_key cur (show_key s) = Some s \<and>
     (\<exists>p. last_with_key prev (show_key s) = Some p \<and> \<not> fields_differ s p)"
    unfolding items_shows_dict using last_with_key_SomeD(2) by blast
  finally show ?thesis .
qed

lemma in_updated_shows:
  "e \<in> set (updated_shows (compare_snapshots cur prev)) \<longleftrightarrow>
     last_with_key cur (show_key (current e)) = Some (current e) \<and>
     last_with_key prev (show_key (current e)) = Some (previous e) \<and>
     fields_differ (current e) (previous e)"
proof -
  have "e \<in> set (updated_shows (compare_snapshots cur prev)) \<longleftrightarrow>
          (\<exists>k. (k, current e) \<in> set (shows_dict cur) \<and>
               last_with_key prev k = Some (previous e) \<and>
               fields_differ (current e) (previous e))"
    unfolding updated_shows_eq by (cases e) (simp split: option.splits prod.splits, force)
  also have "\<dots> \<longleftrightarrow> last_with_key cur (show_key (current e)) = Some (current e) \<and>
     last_with_key prev (show_key (current e)) = Some (previous e) \<and>
     fields_differ (current e) (previous e)"
    unfolding items_shows_dict using last_with_key_SomeD(2) by blast
  finally show ?thesis .
qed

lemma in_removed_shows:
  "s \<in> set (removed_shows (compare_snapshots cur prev)) \<longleftrightarrow>
     last_with_key prev (show_key s) = Some s \<and> last_with_key cur (show_key s) = None"
proof -
  have "s \<in> set (removed_shows (compare_snapshots cur prev)) \<longleftrightarrow>
          (\<exists>k. (k, s) \<in> set (shows_dict prev) \<and> last_with_key cur k = None)"
    unfolding removed_shows_eq by (simp add: image_iff) force
  also have "\<dots> \<longleftrightarrow> last_with_key prev (show_key s) = Some s \<and> last_with_key cur (show_key s) = None"
    unfolding items_shows_dict using last_with_key_SomeD(2) by blast
  finally show ?thesis .
qed

subsection \<open>The last record with a key\<close>

lemmas scenario_defs = show_1_def show_1_prev_def show_2_def show_2_prev_def show_3_def show_4_def
  TheaterShow_init_def midnight_def

text \<open>
  \<open>last_with_key shows k\<close> is the record at the greatest index of \<open>shows\<close> whose key is \<open>k\<close>.
\<close>

lemma last_with_key_snoc:
  "last_with_key (xs @ [x]) k = (if show_key x = k then Some x else last_with_key xs k)"
  by (simp add: last_with_key_def)

lemma last_with_key_iff:
  "last_with_key xs k = Some s \<longleftrightarrow>
     (\<exists>i < length xs. xs ! i = s \<and> show_key s = k \<and> (\<forall>j. i < j \<and> j < length xs \<longrightarrow> show_key (xs ! j) \<noteq> k))"
proof (induction xs rule: rev_induct)
  case Nil
  then show ?case by (simp add: last_with_key_def)
next
  case (snoc x xs)
  show ?case
  proof (cases "show_key x = k")
    case True
    have "(\<exists>i < length (xs @ [x]). (xs @ [x]) ! i = s \<and> show_key s = k \<and>
            (\<forall>j. i < j \<and> j < length (xs @ [x]) \<longrightarrow> show_key ((xs @ [x]) ! j) \<noteq> k)) \<longleftrightarrow> x = s"
    proof
      assume "\<exists>i < length (xs @ [x]). (xs @ [x]) ! i = s \<and> show_key s = k \<and>
            (\<forall>j. i < j \<and> j < length (xs @ [x]) \<longrightarrow> show_key ((xs @ [x]) ! j) \<noteq> k)"
      then obtain i where i: "i < length (xs @ [x])" "(xs @ [x]) ! i = s"
        "\<forall>j. i < j \<and> j < length (xs @ [x]) \<longrightarrow> show_key ((xs @ [x]) ! j) \<noteq> k" by blast
      have "\<not> i < length xs"
      proof
        assume "i < length xs"
        then have "i < length xs \<and> length xs < length (xs @ [x])" by simp
        with i(3) have "show_key ((xs @ [x]) ! length xs) \<noteq> k" by blast
        with True show False by simp
      qed
      with i(1) have "i = length xs" by simp
      with i(2) show "x = s" by simp
    next
      assume "x = s"
      with True show "\<exists>i < length (xs @ [x]). (xs @ [x]) ! i = s \<and> show_key s = k \<and>
            (\<forall>j. i < j \<and> j < length (xs @ [x]) \<longrightarrow> show_key ((xs @ [x]) ! j) \<noteq> k)"
        by (intro exI [of _ "length xs"]) auto
    qed
    with True show ?thesis by (simp add: last_with_key_snoc)
  next
    case False
    have "(\<exists>i < length (xs @ [x]). (xs @ [x]) ! i = s \<and> show_key s = k \<and>
            (\<forall>j. i < j \<and> j < length (xs @ [x]) \<longrightarrow> show_key ((xs @ [x]) ! j) \<noteq> k)) \<longleftrightarrow>
          (\<exists>i < length xs. xs ! i = s \<and> show_key s = k \<and>
            (\<forall>j. i < j \<and> j < length xs \<longrightarrow> show_key (xs ! j) \<noteq> k))" (is "?L \<longleftrightarrow> ?R")
    proof
      assume ?L
      then obtain i where i: "i < length (xs @ [x])" "(xs @ [x]) ! i = s" "show_key s = k"
        "\<forall>j. i < j \<and> j < length (xs @ [x]) \<longrightarrow> show_key ((xs @ [x]) ! j) \<noteq> k" by blast
      have "i \<noteq> length xs" using i(2,3) False by auto
      with i(1) have lt: "i < length xs" by simp
      have "\<forall>j. i < j \<and> j < length xs \<longrightarrow> show_key (xs ! j) \<noteq> k"
      proof (intro allI impI)
        fix j assume j: "i < j \<and> j < length xs"
        with i(4) have "show_key ((xs @ [x]) ! j) \<noteq> k" by simp
        with j show "show_key (xs ! j) \<noteq> k" by (simp add: nth_append)
      qed
      with lt i(2,3) show ?R by (auto simp: nth_append)
    next
      assume ?R
      then obtain i where i: "i < length xs" "xs ! i = s" "show_key s = k"
        "\<forall>j. i < j \<and> j < length xs \<longrightarrow> show_key (xs ! j) \<noteq> k" by blast
      have "\<forall>j. i < j \<and> j < length (xs @ [x]) \<longrightarrow> show_key ((xs @ [x]) ! j) \<noteq> k"
        using i(4) False by (auto simp: nth_append)
      with i(1,2,3) show ?L by (intro exI [of _ i]) (simp add: nth_append)
    qed
    with False snoc show ?thesis by (simp add: last_with_key_snoc)
  qed
qed

subsection \<open>Claims about compare_snapshots\<close>

text \<open>
  Claim C1. For every pair of input sequences, every identity key \<open>k\<close> present in
  \<open>current_shows\<close> is classified through the record \<open>c\<close> the dictionary holds for it (the
  last one with that key): when \<open>k\<close> is absent from \<open>previous_shows\<close>, \<open>c\<close> is in
  \<open>new_shows\<close>; when the previous record \<open>p\<close> for \<open>k\<close> differs from \<open>c\<close> in one of
  performance_start_date, performance_end_date, price_range, description, the pair of
  \<open>c\<close> and \<open>p\<close> is in \<open>updated_shows\<close>; when the four fields are equal, \<open>c\<close> is in
  \<open>unchanged_shows\<close>, whatever the other fields (genre, url, ...) are. In each case the
  key occurs in neither of the other two lists.
\<close>

theorem compare_snapshots_classifies:
  assumes "last_with_key current_shows k = Some c"
  shows
   "(k \<notin> show_key ` set previous_shows \<longrightarrow>
       c \<in> set (new_shows (compare_snapshots current_shows previous_shows)) \<and>
       k \<notin> show_key ` current ` set (updated_shows (compare_snapshots current_shows previous_shows)) \<and>
       k \<notin> show_key ` set (unchanged_shows (compare_snapshots current_shows previous_shows))) \<and>
    (\<forall>p. last_with_key previous_shows k = Some p \<longrightarrow>
       (if performance_start_date c \<noteq> performance_start_date p \<or>
           performance_end_date c \<noteq> performance_end_date p \<or>
           price_range c \<noteq> price_range p \<or>
           description c \<noteq> description p
        then \<lparr>current = c, previous = p\<rparr> \<in> set (updated_shows (compare_snapshots current_shows previous_shows)) \<and>
             k \<notin> show_key ` set (new_shows (compare_snapshots current_shows previous_shows)) \<and>
             k \<notin> show_key ` set (unchanged_shows (compare_snapshots current_shows previous_shows))
        else c \<in> set (unchanged_shows (compare_snapshots current_shows previous_shows)) \<and>
             k \<notin> show_key ` set (new_shows (compare_snapshots current_shows previous_shows)) \<and>
             k \<notin> show_key ` current ` set (updated_shows (compare_snapshots current_shows previous_shows))))"
proof -
  let ?r = "compare_snapshots current_shows previous_shows"
  have key: "show_key c = k" using assms by (rule last_with_key_SomeD(2))
  have same: "s = c" if "last_with_key current_shows (show_key s) = Some s" "show_key s = k" for s
    using that assms by simp
  have absent: "c \<in> set (new_shows ?r) \<and> k \<notin> show_key ` current ` set (updated_shows ?r) \<and>
      k \<notin> show_key ` set (unchanged_shows ?r)" if "k \<notin> show_key ` set previous_shows"
  proof -
    from that have none: "last_with_key previous_shows k = None" by (simp add: last_with_key_None)
    have "c \<in> set (new_shows ?r)" using assms none key by (simp add: in_new_shows)
    moreover have "k \<notin> show_key ` current ` set (updated_shows ?r)"
      using none by (auto simp: in_updated_shows)
    moreover have "k \<notin> show_key ` set (unchanged_shows ?r)"
      using none by (auto simp: in_unchanged_shows)
    ultimately show ?thesis by blast
  qed
  have present: "(if fields_differ c p
        then \<lparr>current = c, previous = p\<rparr> \<in> set (updated_shows ?r) \<and>
             k \<notin> show_key ` set (new_shows ?r) \<and> k \<notin> show_key ` set (unchanged_shows ?r)
        else c \<in> set (unchanged_shows ?r) \<and>
             k \<notin> show_key ` set (new_shows ?r) \<and> k \<notin> show_key ` current ` set (updated_shows ?r))"
    if p: "last_with_key previous_shows k = Some p" for p
  proof -
    have nonew: "k \<notin> show_key ` set (new_shows ?r)" using p by (auto simp: in_new_shows)
    show ?thesis
    proof (cases "fields_differ c p")
      case True
      have "\<lparr>current = c, previous = p\<rparr> \<in> set (updated_shows ?r)"
        using assms p key True by (simp add: in_updated_shows)
      moreover have "k \<notin> show_key ` set (unchanged_shows ?r)"
      proof
        assume "k \<in> show_key ` set (unchanged_shows ?r)"
        then obtain s where s: "s \<in> set (unchanged_shows ?r)" "show_key s = k" by auto
        then have "s = c" using same by (simp add: in_unchanged_shows)
        with s p True show False by (auto simp: in_unchanged_shows)
      qed
      ultimately show ?thesis using True nonew by simp
    next
      case False
      have "c \<in> set (unchanged_shows ?r)"
        using assms p key False by (simp add: in_unchanged_shows)
      moreover have "k \<notin> show_key ` current ` set (updated_shows ?r)"
      proof
        assume "k \<in> show_key ` current ` set (updated_shows ?r)"
        then obtain e where e: "e \<in> set (updated_shows ?r)" "show_key (current e) = k" by auto
        then have "current e = c" using same by (simp add: in_updated_shows)
        with e p False show False by (auto simp: in_updated_shows)
      qed
      ultimately show ?thesis using False nonew by simp
    qed
  qed
  from absent present show ?thesis unfolding fields_differ_def by blast
qed

text \<open>
  The scenario of the specification: Show 1 changed its start date, Show 2 differs from
  its previous record in url and genre only, Show 3 is new.
\<close>

theorem compare_snapshots_classifies_witness:
  "last_with_key [show_1, show_2, show_3] (''Show 1'', ''Theatre A'') = Some show_1 \<and>
   last_with_key [show_1, show_2, show_3] (''Show 2'', ''Theatre B'') = Some show_2 \<and>
   last_with_key [show_1, show_2, show_3] (''Show 3'', ''Theatre C'') = Some show_3 \<and>
   \<lparr>current = show_1, previous = show_1_prev\<rparr>
      \<in> set (updated_shows (compare_snapshots [show_1, show_2, show_3] [show_1_prev, show_2_prev, show_4])) \<and>
   show_2 \<in> set (unchanged_shows (compare_snapshots [show_1, show_2, show_3] [show_1_prev, show_2_prev, show_4])) \<and>
   show_3 \<in> set (new_shows (compare_snapshots [show_1, show_2, show_3] [show_1_prev, show_2_prev, show_4]))"
proof -
  have c1: "last_with_key [show_1, show_2, show_3] (''Show 1'', ''Theatre A'') = Some show_1"
    by (simp add: last_with_key_def show_key_def scenario_defs)
  have c2: "last_with_key [show_1, show_2, show_3] (''Show 2'', ''Theatre B'') = Some show_2"
    by (simp add: last_with_key_def show_key_def scenario_defs)
  have c3: "last_with_key [show_1, show_2, show_3] (''Show 3'', ''Theatre C'') = Some show_3"
    by (simp add: last_with_key_def show_key_def scenario_defs)
  have p1: "last_with_key [show_1_prev, show_2_prev, show_4] (''Show 1'', ''Theatre A'') = Some show_1_prev"
    by (simp add: last_with_key_def show_key_def scenario_defs)
  have p2: "last_with_key [show_1_prev, show_2_prev, show_4] (''Show 2'', ''Theatre B'') = Some show_2_prev"
    by (simp add: last_with_key_def show_key_def scenario_defs)
  have p3: "(''Show 3'', ''Theatre C'') \<notin> show_key ` set [show_1_prev, show_2_prev, show_4]"
    by (simp add: show_key_def scenario_defs)
  have d1: "performance_start_date show_1 \<noteq> performance_start_date show_1_prev"
    by (simp add: scenario_defs)
  have d2: "\<not> (performance_start_date show_2 \<noteq> performance_start_date show_2_prev \<or>
           performance_end_date show_2 \<noteq> performance_end_date show_2_prev \<or>
           price_range show_2 \<noteq> price_range show_2_prev \<or>
           description show_2 \<noteq> description show_2_prev)"
    by (simp add: scenario_defs)
  have "\<lparr>current = show_1, previous = show_1_prev\<rparr>
      \<in> set (updated_shows (compare_snapshots [show_1, show_2, show_3] [show_1_prev, show_2_prev, show_4]))"
    using compare_snapshots_classifies [OF c1, of "[show_1_prev, show_2_prev, show_4]"] p1 d1 by simp
  moreover have "show_2 \<in> set (unchanged_shows (compare_snapshots [show_1, show_2, show_3] [show_1_prev, show_2_prev, show_4]))"
    using compare_snapshots_classifies [OF c2, of "[show_1_prev, show_2_prev, show_4]"] p2 d2 by simp
  moreover have "show_3 \<in> set (new_shows (compare_snapshots [show_1, show_2, show_3] [show_1_prev, show_2_prev, show_4]))"
    using compare_snapshots_classifies [OF c3, of "[show_1_prev, show_2_prev, show_4]"] p3 by simp
  ultimately show ?thesis using c1 c2 c3 by simp
qed

text \<open>
  Claim C5, amended. When no two records of \<open>current_shows\<close> share a key (title, venue),
  comparing against the empty snapshot returns \<open>current_shows\<close> itself, in its order, as
  \<open>new_shows\<close>, and the other three lists are empty.
\<close>

theorem compare_snapshots_empty_previous:
  assumes "distinct (map show_key current_shows)"
  shows "compare_snapshots current_shows [] =
     \<lparr>new_shows = current_shows, updated_shows = [], unchanged_shows = [], removed_shows = []\<rparr>"
proof -
  have "classify_loop [] (map (\<lambda>s. (show_key s, s)) xs) (n, u, c) = (n @ xs, u, c)" for xs n u c
    by (induction xs arbitrary: n) simp_all
  with assms show ?thesis
    by (simp add: compare_snapshots_def shows_dict_distinct_keys)
qed

theorem compare_snapshots_empty_previous_witness:
  "distinct (map show_key [show_1, show_2, show_3]) \<and>
   compare_snapshots [show_1, show_2, show_3] [] =
     \<lparr>new_shows = [show_1, show_2, show_3], updated_shows = [], unchanged_shows = [], removed_shows = []\<rparr>"
proof -
  have d: "distinct (map show_key [show_1, show_2, show_3])"
    by (simp add: show_key_def scenario_defs)
  from d compare_snapshots_empty_previous [OF d] show ?thesis by simp
qed

text \<open>
  Without the distinctness of the keys the statement fails: of two records with the same
  key only the second is reported.
\<close>

theorem compare_snapshots_empty_previous_counterexample:
  "new_shows (compare_snapshots [show_1_prev, show_1] []) = [show_1] \<and>
   new_shows (compare_snapshots [show_1_prev, show_1] []) \<noteq> [show_1_prev, show_1]"
  by (simp add: compare_snapshots_def shows_dict_def show_key_def scenario_defs)

text \<open>
  Claim C6. The dictionary built from a sequence holds, for every key, the last record
  of the sequence with that key; and every record the comparison puts in its output is
  the last record with its key of the sequence it comes from (current for new, updated
  and unchanged; previous for removed and for the previous side of updated).
\<close>

theorem compare_snapshots_last_write_wins:
  "map_of (shows_dict shows) k = last_with_key shows k \<and>
   (\<forall>s \<in> set (new_shows (compare_snapshots current_shows previous_shows)) \<union>
          set (unchanged_shows (compare_snapshots current_shows previous_shows)).
      last_with_key current_shows (show_key s) = Some s) \<and>
   (\<forall>e \<in> set (updated_shows (compare_snapshots current_shows previous_shows)).
      last_with_key current_shows (show_key (current e)) = Some (current e) \<and>
      last_with_key previous_shows (show_key (previous e)) = Some (previous e)) \<and>
   (\<forall>s \<in> set (removed_shows (compare_snapshots current_shows previous_shows)).
      last_with_key previous_shows (show_key s) = Some s)"
proof -
  have "last_with_key previous_shows (show_key (previous e)) = Some (previous e)"
    if "e \<in> set (updated_shows (compare_snapshots current_shows previous_shows))" for e
  proof -
    from that have "last_with_key previous_shows (show_key (current e)) = Some (previous e)"
      by (simp add: in_updated_shows)
    moreover from this have "show_key (previous e) = show_key (current e)"
      by (rule last_with_key_SomeD(2))
    ultimately show ?thesis by simp
  qed
  then show ?thesis
    by (auto simp: lookup_shows_dict in_new_shows in_unchanged_shows in_updated_shows in_removed_shows)
qed

theorem compare_snapshots_last_write_wins_witness:
  "new_shows (compare_snapshots [show_1_prev, show_2, show_1] [show_4, show_2, show_2_prev]) = [show_1] \<and>
   unchanged_shows (compare_snapshots [show_1_prev, show_2, show_1] [show_4, show_2, show_2_prev]) = [show_2] \<and>
   last_with_key [show_1_prev, show_2, show_1] (show_key show_1) = Some show_1 \<and>
   last_with_key [show_1_prev, show_2, show_1] (show_key show_2) = Some show_2"
proof -
  have n: "new_shows (compare_snapshots [show_1_prev, show_2, show_1] [show_4, show_2, show_2_prev]) = [show_1]"
    by (simp add: compare_snapshots_def shows_dict_def show_key_def scenario_defs)
  have u: "unchanged_shows (compare_snapshots [show_1_prev, show_2, show_1] [show_4, show_2, show_2_prev]) = [show_2]"
    by (simp add: compare_snapshots_def shows_dict_def show_key_def fields_differ_def scenario_defs)
  from compare_snapshots_last_write_wins
    [of "[]" "([], [])" "[show_1_prev, show_2, show_1]" "[show_4, show_2, show_2_prev]"]
  show ?thesis unfolding n u by simp
qed

text \<open>
  Claim C10. The output consists of input records, returned as they are: every record of
  \<open>new_shows\<close> and \<open>unchanged_shows\<close> is a record of \<open>current_shows\<close>, every record of
  \<open>removed_shows\<close> a record of \<open>previous_shows\<close>, and every entry of \<open>updated_shows\<close> pairs
  a record of \<open>current_shows\<close> with a record of \<open>previous_shows\<close> that has the same key.
  Membership is equality of whole records, so every field is as in the input.
\<close>

theorem compare_snapshots_returns_inputs:
  "set (new_shows (compare_snapshots current_shows previous_shows)) \<subseteq> set current_shows \<and>
   set (unchanged_shows (compare_snapshots current_shows previous_shows)) \<subseteq> set current_shows \<and>
   set (removed_shows (compare_snapshots current_shows previous_shows)) \<subseteq> set previous_shows \<and>
   (\<forall>e \<in> set (updated_shows (compare_snapshots current_shows previous_shows)).
      current e \<in> set current_shows \<and> previous e \<in> set previous_shows \<and>
      show_key (current e) = show_key (previous e))"
proof -
  have "set (new_shows (compare_snapshots current_shows previous_shows)) \<subseteq> set current_shows"
    by (auto simp: in_new_shows intro: last_with_key_SomeD(1))
  moreover have "set (unchanged_shows (compare_snapshots current_shows previous_shows)) \<subseteq> set current_shows"
    by (auto simp: in_unchanged_shows intro: last_with_key_SomeD(1))
  moreover have "set (removed_shows (compare_snapshots current_shows previous_shows)) \<subseteq> set previous_shows"
    by (auto simp: in_removed_shows intro: last_with_key_SomeD(1))
  moreover have "current e \<in> set current_shows \<and> previous e \<in> set previous_shows \<and>
      show_key (current e) = show_key (previous e)"
    if "e \<in> set (updated_shows (compare_snapshots current_shows previous_shows))" for e
  proof -
    from that have c: "last_with_key current_shows (show_key (current e)) = Some (current e)"
      and p: "last_with_key previous_shows (show_key (current e)) = Some (previous e)"
      by (simp_all add: in_updated_shows)
    from last_with_key_SomeD(1) [OF c] last_with_key_SomeD [OF p] show ?thesis by simp
  qed
  ultimately show ?thesis by blast
qed

theorem compare_snapshots_returns_inputs_witness:
  "updated_shows (compare_snapshots [show_1, show_2, show_3] [show_1_prev, show_2_prev, show_4])
     = [\<lparr>current = show_1, previous = show_1_prev\<rparr>] \<and>
   show_1 \<in> set [show_1, show_2, show_3] \<and> show_1_prev \<in> set [show_1_prev, show_2_prev, show_4] \<and>
   show_key show_1 = show_key show_1_prev"
proof -
  have u: "updated_shows (compare_snapshots [show_1, show_2, show_3] [show_1_prev, show_2_prev, show_4])
     = [\<lparr>current = show_1, previous = show_1_prev\<rparr>]"
    by (simp add: compare_snapshots_def shows_dict_def show_key_def fields_differ_def scenario_defs)
  from compare_snapshots_returns_inputs [of "[show_1, show_2, show_3]" "[show_1_prev, show_2_prev, show_4]"]
  show ?thesis unfolding u by simp
qed

section \<open>Properties of parse_date_string\<close>

subsection \<open>White space, substrings and the month loop\<close>

lemma isdigit_not_isspace: "isdigit c \<Longrightarrow> \<not> isspace c"
  by (auto simp: isdigit_def isspace_def)

lemma collapse_ws_nospace: "\<forall>c \<in> set s. \<not> isspace c \<Longrightarrow> collapse_ws b s = s"
  by (induction s arbitrary: b) auto

lemma strip_nospace: "\<forall>c \<in> set s. \<not> isspace c \<Longrightarrow> strip s = s"
proof (cases s rule: rev_cases)
  case Nil
  then show ?thesis by (simp add: strip_def)
next
  case (snoc ys y)
  assume a: "\<forall>c \<in> set s. \<not> isspace c"
  then have "dropWhile isspace s = s" by (cases s) auto
  moreover have "dropWhile isspace (rev s) = rev s" using a snoc by simp
  ultimately show ?thesis by (simp add: strip_def)
qed





subsection \<open>A string of the strict numeric form holds no month name\<close>





subsection \<open>When a date is returned\<close>



subsection \<open>Claims about parse_date_string\<close>

text \<open>
  Claim C7. \<open>parse_date_string\<close> returns None for the input None, for the empty string,
  for the bare year 2025 and every string of four digits, and for every input whose
  white-space-normalised form has fewer than five characters; none of these reaches the
  date library. For "Not a date" it returns None when the library's fuzzy parse raises
  ValueError on that string: no check of the function rejects the string itself.
\<close>

theorem parse_date_string_short_or_empty:
  "parse_date_string lib None = Inr None \<and>
   parse_date_string lib (Some []) = Inr None \<and>
   parse_date_string lib (Some ''2025'') = Inr None \<and>
   (length yyyy = 4 \<and> list_all isdigit yyyy \<longrightarrow> parse_date_string lib (Some yyyy) = Inr None) \<and>
   (length (strip (re_sub_ws s)) < 5 \<longrightarrow> parse_date_string lib (Some s) = Inr None) \<and>
   (parse_fuzzy lib ''Not a date'' = ValueError \<longrightarrow>
      parse_date_string lib (Some ''Not a date'') = Inr None)"
proof -
  have a: "parse_date_string lib None = Inr None"
    by (simp add: parse_date_string_def)
  have b: "parse_date_string lib (Some []) = Inr None"
    by (simp add: parse_date_string_def)
  have short: "parse_date_string lib (Some t) = Inr None" if "length (strip (re_sub_ws t)) < 5" for t
    using that by (simp add: parse_date_string_def Let_def)
  have digits: "parse_date_string lib (Some ys) = Inr None"
    if "length ys = 4" "list_all isdigit ys" for ys
  proof -
    from that(2) have "\<forall>c \<in> set ys. \<not> isspace c"
      by (auto simp: list_all_iff isdigit_not_isspace)
    then have "strip (re_sub_ws ys) = ys"
      by (simp add: re_sub_ws_def collapse_ws_nospace strip_nospace)
    with that(1) show ?thesis by (simp add: short)
  qed
  have c: "parse_date_string lib (Some ''2025'') = Inr None"
    by (rule digits) (simp_all add: isdigit_def ord_def)
  have clean: "strip (re_sub_ws ''Not a date'') = ''Not a date''"
    by (simp add: strip_def re_sub_ws_def isspace_def ord_def)
  have nomatch: "\<not> re_match_year_only ''Not a date''" "\<not> re_match_dmy ''Not a date''"
    by (simp_all add: re_match_year_only_def re_match_dmy_def isdigit_def ord_def)
  have d: "parse_date_string lib (Some ''Not a date'') = Inr None"
    if "parse_fuzzy lib ''Not a date'' = ValueError"
    using that nomatch by (simp add: parse_date_string_def clean fuzzy_parse_def)
  from a b c digits short d show ?thesis by blast
qed

theorem parse_date_string_short_or_empty_witness:
  "length ''1999'' = 4 \<and> list_all isdigit ''1999'' \<and>
   parse_date_string sample_library (Some ''1999'') = Inr None \<and>
   length (strip (re_sub_ws '' 7 \<newline> pm  '')) < 5 \<and>
   parse_date_string sample_library (Some '' 7 \<newline> pm  '') = Inr None \<and>
   parse_fuzzy sample_library ''Not a date'' = ValueError \<and>
   parse_date_string sample_library (Some ''Not a date'') = Inr None"
proof -
  have h1: "length ''1999'' = 4 \<and> list_all isdigit ''1999''"
    by (simp add: isdigit_def ord_def)
  have h2: "length (strip (re_sub_ws '' 7 \<newline> pm  '')) < 5"
    by (simp add: strip_def re_sub_ws_def isspace_def ord_def)
  have h3: "parse_fuzzy sample_library ''Not a date'' = ValueError"
    by (simp add: sample_library_def)
  from parse_date_string_short_or_empty [of sample_library "''1999''" "'' 7 \<newline> pm  ''"] h1 h2 h3
  show ?thesis by blast
qed

lemma explicit_format_unchecked:
  assumes "s \<noteq> []" "\<not> length (strip (re_sub_ws s)) < 5" "re_match_dmy (strip (re_sub_ws s))"
    "parse_dayfirst lib (strip (re_sub_ws s)) = Parsed d"
  shows "parse_date_string lib (Some s) = Inr (Some d)"
proof -
  let ?c = "strip (re_sub_ws s)"
  from assms(3) have two: "length (takeWhile isdigit ?c) \<le> 2"
    by (simp add: re_match_dmy_def Let_def)
  have "\<not> re_match_year_only ?c"
  proof
    assume "re_match_year_only ?c"
    then have a: "\<forall>x \<in> set (take 4 ?c). isdigit x" "4 \<le> length ?c"
      by (simp_all add: re_match_year_only_def list_all_iff)
    have "takeWhile isdigit (take 4 ?c @ drop 4 ?c) = take 4 ?c @ takeWhile isdigit (drop 4 ?c)"
      using a(1) by (intro takeWhile_append2) simp
    then have "length (takeWhile isdigit ?c) = length (take 4 ?c) + length (takeWhile isdigit (drop 4 ?c))"
      by simp
    with a(2) two show False by simp
  qed
  with assms show ?thesis by (simp add: parse_date_string_def Let_def)
qed




subsection \<open>A date rendered as day, month name and year\<close>




















section \<open>Properties of the extractors\<close>

text \<open>
  The text of an element leaves out the string of a \<open>script\<close> element inside it, and the
  text of the \<open>script\<close> element itself is that string.
\<close>

lemma get_text_script:
  "get_text (Element ''h2'' [] [Text '' Hamlet '', Element ''script'' [] [Contained ''script'' ''var x;'']]) []
     = ''Hamlet'' \<and>
   get_text (Element ''h2'' [] [Text '' Hamlet '', Element ''script'' [] [Contained ''script'' ''var x;'']]) [1]
     = ''var x;''"
  by code_simp

text \<open>
  The Bridge extractor returns at least one record for every document, identifier and
  page address: its last step appends a record when the list is empty.
\<close>

lemma extract_bridge_shows_never_empty:
  "extract_bridge_shows now soup theater_id' url' \<noteq> []"
  by (simp add: extract_bridge_shows_def Let_def)

text \<open>
  Claim C3 states that an extractor returns the empty sequence when neither its
  selectors nor its heading scan find a candidate, and that no record is made up. On
  \<open>empty_page\<close>, where the Bridge extractor finds no navigation heading, no element of the
  general selectors and no heading, it returns one record: the show "Richard II" with
  a fixed address, neither of which comes from the document.
\<close>

theorem extract_bridge_shows_fabricates:
  "extract_bridge_shows now empty_page theater_id' url' = [bridge_mock_show now theater_id'] \<and>
   title (bridge_mock_show now theater_id') = ''Richard II'' \<and>
   url (bridge_mock_show now theater_id') = ''https://bridgetheatre.co.uk/performances/richard-ii/''"
proof -
  have d: "descendants empty_page [] = [[0], [0, 0]]"
    by (simp add: descendants_def empty_page_def)
  have n: "node_at empty_page [0] = Some (Element ''html'' [] [Element ''body'' [] []])"
    "node_at empty_page [0, 0] = Some (Element ''body'' [] [])"
    by (simp_all add: empty_page_def)
  have s: "select empty_page [] sel = [] \<or> (\<exists>c \<in> set sel. list_all (matches_simple ''html'' []) c \<or> list_all (matches_simple ''body'' []) c)" for sel
    by (auto simp: select_def d n matches_def list_ex_iff)
  have s1: "select empty_page [] [[Class ''global-header__nav-heading'']] = []"
    using s [of "[[Class ''global-header__nav-heading'']]"] by (simp add: class_list_def)
  have s2: "select empty_page [] [[Class ''performance''], [Class ''production''],
                                 [Class ''event-card''], [Class ''show-item'']] = []"
    using s [of "[[Class ''performance''], [Class ''production''],
                                 [Class ''event-card''], [Class ''show-item'']]"] by (simp add: class_list_def)
  have s3: "select empty_page [] [[ClassContains ''performance'' False],
                                       [ClassContains ''production'' False],
                                       [ClassContains ''event'' False],
                                       [ClassContains ''show'' False]] = []"
    using s [of "[[ClassContains ''performance'' False],
                                       [ClassContains ''production'' False],
                                       [ClassContains ''event'' False],
                                       [ClassContains ''show'' False]]"] by simp
  have h: "find_all empty_page [] [''h1'', ''h2'', ''h3'', ''h4'', ''h5'', ''h6''] = []"
    by (simp add: find_all_def d name_at_def n)
  show ?thesis
    by (simp add: extract_bridge_shows_def s1 s2 s3 bridge_heading_shows_def h
        bridge_mock_show_def TheaterShow_init_def)
qed

text \<open>
  Claim C4 states that no record an extractor returns has the empty string as its
  title. On \<open>blank_title_page\<close> the Donmar extractor finds the heading element of the card,
  whose text is empty, and returns a record with the empty title: the card is skipped
  only when no title element exists.
\<close>

theorem extract_donmar_shows_blank_title:
  "extract_donmar_shows lib now blank_title_page theater_id' url' =
     [(TheaterShow_init [] ''Donmar Warehouse'' [] now)\<lparr>theater_id := theater_id'\<rparr>] \<and>
   title ((TheaterShow_init [] ''Donmar Warehouse'' [] now)\<lparr>theater_id := theater_id'\<rparr>) = []"
  by code_simp

section \<open>Properties of the dispatcher\<close>

lemma registered_identifiers:
  "map fst THEATER_PARSERS =
     [''donmar'', ''national'', ''bridge'', ''hampstead'', ''marylebone'',
      ''soho_dean'', ''soho_walthamstow'', ''rsc'', ''royal_court'', ''drury_lane'']"
  by (simp add: THEATER_PARSERS_def)

text \<open>
  Claim C9. \<open>parse_theater_page\<close> returns the empty list for the empty page text, whatever
  the identifier, and for every page text when the identifier is not one of the ten keys
  of \<open>THEATER_PARSERS\<close>: the lookup then gives the generic extractor, which returns the
  empty list. The function is total, so it returns in both cases.
\<close>

theorem parse_theater_page_empty_or_unknown:
  "parse_theater_page parse_html lib now [] theater_id' url' = [] \<and>
   (theater_id' \<notin> set [''donmar'', ''national'', ''bridge'', ''hampstead'', ''marylebone'',
                          ''soho_dean'', ''soho_walthamstow'', ''rsc'', ''royal_court'', ''drury_lane'']
    \<longrightarrow> parse_theater_page parse_html lib now html_content theater_id' url' = [])"
proof -
  have "map_of THEATER_PARSERS theater_id' = None"
    if "theater_id' \<notin> set (map fst THEATER_PARSERS)"
    using that by (simp add: map_of_eq_None_iff)
  then show ?thesis
    unfolding registered_identifiers
    by (simp add: parse_theater_page_def extract_show_details_def)
qed

text \<open>
  An unknown identifier gives the empty list on a page from which the Donmar extractor,
  under its own identifier, makes a record.
\<close>

theorem parse_theater_page_empty_or_unknown_witness:
  "''nonexistent_site'' \<notin> set [''donmar'', ''national'', ''bridge'', ''hampstead'', ''marylebone'',
                          ''soho_dean'', ''soho_walthamstow'', ''rsc'', ''royal_court'', ''drury_lane''] \<and>
   parse_theater_page (\<lambda>html. blank_title_page) sample_library (midnight 2025 1 1)
     ''<ul><li class=eventCard><h2></h2></li></ul>'' ''nonexistent_site'' ''https://example.com'' = [] \<and>
   parse_theater_page (\<lambda>html. blank_title_page) sample_library (midnight 2025 1 1)
     ''<ul><li class=eventCard><h2></h2></li></ul>'' ''donmar'' ''https://example.com'' \<noteq> []"
proof -
  have h: "''nonexistent_site'' \<notin> set [''donmar'', ''national'', ''bridge'', ''hampstead'', ''marylebone'',
                          ''soho_dean'', ''soho_walthamstow'', ''rsc'', ''royal_court'', ''drury_lane'']"
    by simp
  have d: "parse_theater_page (\<lambda>html. blank_title_page) sample_library (midnight 2025 1 1)
     ''<ul><li class=eventCard><h2></h2></li></ul>'' ''donmar'' ''https://example.com'' \<noteq> []"
    by code_simp
  from parse_theater_page_empty_or_unknown
    [of "\<lambda>html. blank_title_page" sample_library "midnight 2025 1 1" "''nonexistent_site''"
        "''https://example.com''" "''<ul><li class=eventCard><h2></h2></li></ul>''"]
    h d
  show ?thesis by blast
qed

end
